theory Spec2Isabelle
  imports
    Main
    "HOL-Library.Char_ord"
    "HOL-Library.List_Lexorder"
    "HOL-Library.Product_Lexorder"
    "HOL-Library.Sublist"
begin

section \<open>Values\<close>

text \<open>
  The application (\<^verbatim>\<open>app.py\<close>) joins five CSV tables, sends a question to a language
  model, and turns every chart plan of the model's JSON answer into a Plotly chart.
  Three kinds of values occur: JSON values (the request body, the model's answer, the chart
  plans), table cells (the contents of a pandas data frame) and tables.

  A Python \<^verbatim>\<open>dict\<close> is an association list read with first-binding-wins; its keys, in
  insertion order, are the first occurrences. A character is a code point below 256, numbers
  are integers (floating point is outside the model), and a timestamp is an integer count of
  time units since the epoch.
\<close>

datatype json =
    JNull
  | JBool bool
  | JNum int
  | JStr string
  | JList "json list"
  | JObj "(string \<times> json) list"

datatype cell = CNull | CBool bool | CInt int | CStr string | CDate int

datatype error =
    KeyError | TypeError | AttributeError | ValueError | MergeError | LibraryError

record table =
  columns :: "string list"
  rows :: "cell list list"

text \<open>The synthetic year-month grouping key of the chart plans; its sixth character is
  e with circumflex, code point 0xEA.\<close>

definition Ano_Mes :: string where
  "Ano_Mes = ''Ano-M'' @ [CHR 0xEA] @ ''s''"

subsection \<open>Python's operations on JSON values\<close>

text \<open>\<^verbatim>\<open>bool(v)\<close>: what \<^verbatim>\<open>if v\<close>, \<^verbatim>\<open>not v\<close> and \<^verbatim>\<open>a or b\<close> test.\<close>

fun truthy :: "json \<Rightarrow> bool" where
  "truthy JNull = False"
| "truthy (JBool b) = b"
| "truthy (JNum n) = (n \<noteq> 0)"
| "truthy (JStr s) = (s \<noteq> [])"
| "truthy (JList xs) = (xs \<noteq> [])"
| "truthy (JObj d) = (d \<noteq> [])"

text \<open>\<^verbatim>\<open>a or b\<close>\<close>

definition py_or :: "json \<Rightarrow> json \<Rightarrow> json" where
  "py_or a b = (if truthy a then a else b)"

text \<open>\<^verbatim>\<open>d.get(k, dflt)\<close> and \<^verbatim>\<open>d.get(k)\<close> on a dict; \<^verbatim>\<open>None\<close> is \<open>JNull\<close>.\<close>

definition dict_get_default :: "(string \<times> json) list \<Rightarrow> string \<Rightarrow> json \<Rightarrow> json" where
  "dict_get_default d k dflt = (case map_of d k of None \<Rightarrow> dflt | Some v \<Rightarrow> v)"

definition dict_get :: "(string \<times> json) list \<Rightarrow> string \<Rightarrow> json" where
  "dict_get d k = dict_get_default d k JNull"

text \<open>The keys of a dict in insertion order, and \<^verbatim>\<open>len(d)\<close>.\<close>

fun first_occurrences :: "'a list \<Rightarrow> 'a list" where
  "first_occurrences [] = []"
| "first_occurrences (x # xs) = x # first_occurrences (filter (\<lambda>y. y \<noteq> x) xs)"

definition dict_keys :: "(string \<times> json) list \<Rightarrow> string list" where
  "dict_keys d = first_occurrences (map fst d)"

definition dict_len :: "(string \<times> json) list \<Rightarrow> nat" where
  "dict_len d = length (dict_keys d)"

text \<open>\<^verbatim>\<open>for x in v\<close>: a list gives its elements, a string its characters, a dict its keys.\<close>

definition py_iter :: "json \<Rightarrow> error + json list" where
  "py_iter v =
     (case v of
        JList xs \<Rightarrow> Inr xs
      | JStr s \<Rightarrow> Inr (map (\<lambda>c. JStr [c]) s)
      | JObj d \<Rightarrow> Inr (map JStr (dict_keys d))
      | _ \<Rightarrow> Inl TypeError)"

text \<open>\<^verbatim>\<open>p in s\<close> on strings: \<open>p\<close> occurs in \<open>s\<close> as a contiguous run.\<close>

fun starts_with :: "string \<Rightarrow> string \<Rightarrow> bool" where
  "starts_with [] s = True"
| "starts_with (p # ps) [] = False"
| "starts_with (p # ps) (c # cs) = (p = c \<and> starts_with ps cs)"

fun is_substr :: "string \<Rightarrow> string \<Rightarrow> bool" where
  "is_substr p [] = (p = [])"
| "is_substr p (c # cs) = (starts_with p (c # cs) \<or> is_substr p cs)"

text \<open>Whether a value can be hashed (be a set element or a dict key).\<close>

fun hashable :: "json \<Rightarrow> bool" where
  "hashable (JList xs) = False"
| "hashable (JObj d) = False"
| "hashable v = True"

text \<open>
  \<^verbatim>\<open>x in c\<close>. Elements are compared with HOL equality, which is Python's \<^verbatim>\<open>==\<close> on
  JSON values except that Python also has \<^verbatim>\<open>True == 1\<close> and ignores the key order of
  dicts.
\<close>

definition py_in :: "json \<Rightarrow> json \<Rightarrow> error + bool" where
  "py_in x c =
     (case c of
        JList xs \<Rightarrow> Inr (x \<in> set xs)
      | JStr s \<Rightarrow> (case x of JStr p \<Rightarrow> Inr (is_substr p s) | _ \<Rightarrow> Inl TypeError)
      | JObj d \<Rightarrow> (if hashable x then Inr (x \<in> JStr ` set (map fst d)) else Inl TypeError)
      | _ \<Rightarrow> Inl TypeError)"

text \<open>
  \<^verbatim>\<open>list(set(c))\<close>. Python leaves the order of the result open; the model takes the
  order of first occurrence.
\<close>

definition py_list_set :: "json \<Rightarrow> error + json list" where
  "py_list_set c =
     (case py_iter c of
        Inl e \<Rightarrow> Inl e
      | Inr xs \<Rightarrow> (if list_all hashable xs then Inr (first_occurrences xs) else Inl TypeError))"

section \<open>Tables\<close>

text \<open>
  A data frame is its column labels and its rows, each row a list of cells in column order.
  The dtype of a column is read off its cells: a column is a datetime column when every
  cell is a timestamp or null.
\<close>

fun index_of :: "'a \<Rightarrow> 'a list \<Rightarrow> nat" where
  "index_of x [] = 0"
| "index_of x (y # ys) = (if x = y then 0 else Suc (index_of x ys))"

definition cell_at :: "string list \<Rightarrow> cell list \<Rightarrow> string \<Rightarrow> cell" where
  "cell_at cols r c = (let i = index_of c cols in if i < length r then r ! i else CNull)"

definition column_cells :: "table \<Rightarrow> string \<Rightarrow> cell list" where
  "column_cells df c = map (\<lambda>r. cell_at (columns df) r c) (rows df)"

text \<open>\<^verbatim>\<open>df.empty\<close>: no rows or no columns.\<close>

definition df_empty :: "table \<Rightarrow> bool" where
  "df_empty df = (rows df = [] \<or> columns df = [])"

text \<open>\<^verbatim>\<open>df[mask]\<close>: the rows at which the mask holds.\<close>

definition select_rows :: "table \<Rightarrow> bool list \<Rightarrow> table" where
  "select_rows df keep = df\<lparr>rows := map fst (filter snd (zip (rows df) keep))\<rparr>"

fun is_datetime_cell :: "cell \<Rightarrow> bool" where
  "is_datetime_cell (CDate d) = True"
| "is_datetime_cell CNull = True"
| "is_datetime_cell c = False"

text \<open>\<^verbatim>\<open>pd.api.types.is_datetime64_any_dtype(df[c])\<close>\<close>

definition is_datetime_column :: "table \<Rightarrow> string \<Rightarrow> bool" where
  "is_datetime_column df c = list_all is_datetime_cell (column_cells df c)"

text \<open>A row cut or padded with nulls to the width of the table.\<close>

definition fit :: "nat \<Rightarrow> cell list \<Rightarrow> cell list" where
  "fit n r = take n (r @ replicate n CNull)"

text \<open>\<^verbatim>\<open>df[c] = values\<close>: an existing column is overwritten in place, a new one is appended.\<close>

definition set_column :: "table \<Rightarrow> string \<Rightarrow> cell list \<Rightarrow> table" where
  "set_column df c vs =
     (let n = length (columns df); i = index_of c (columns df) in
      if c \<in> set (columns df)
      then df\<lparr>rows := map (\<lambda>(r, v). (fit n r)[i := v]) (zip (rows df) vs)\<rparr>
      else \<lparr>columns = columns df @ [c],
            rows = map (\<lambda>(r, v). fit n r @ [v]) (zip (rows df) vs)\<rparr>)"

section \<open>The libraries\<close>

text \<open>
  pandas, Plotly, the JSON parser and the language model are not part of the repository.
  What the code asks of them and what cannot be written down in full (date parsing, the
  expression language of \<^verbatim>\<open>DataFrame.query\<close>, the named aggregation functions, the
  construction of a figure) is a parameter of the model:
  \<^item> \<open>parse_date\<close>: the date a cell is read as by \<^verbatim>\<open>pd.to_datetime(..., errors='coerce')\<close>,
    \<open>None\<close> when it cannot be read;
  \<^item> \<open>to_datetime\<close>: \<^verbatim>\<open>pd.to_datetime(v)\<close> on a JSON scalar, which raises on a value it
    cannot read; \<open>None\<close> is \<^verbatim>\<open>NaT\<close>;
  \<^item> \<open>year_and_month\<close>: the calendar year and month (1 to 12) that a timestamp falls in;
  \<^item> \<open>query\<close>: \<^verbatim>\<open>df.query(f"`{column}` {operator} @value", local_dict={'value': value})\<close>
    as a function of the frame, the column, the operator and the value;
  \<^item> \<open>elem_eq\<close>: whether \<^verbatim>\<open>Series.isin\<close> takes a cell and an element of the list as equal;
  \<^item> \<open>agg\<close>: the aggregation function of a given name on the cells of one group;
  \<^item> \<open>key_match\<close>: what \<^verbatim>\<open>merge\<close> makes of the two key columns of a join: the error it
    raises when their dtypes cannot be merged (integers against strings), or the comparison of
    two keys that it settles on once both columns are brought to one dtype. A column of
    integers that holds a null is a column of floating-point numbers, so that two integers
    beyond \<open>2^53\<close> can fall together there; a null key matches a null key;
  \<^item> \<open>with_nulls\<close>: what a cell of a column (given by its cells) becomes when the column
    has to take a null (an integer of a column of integers becomes a floating-point number);
  \<^item> \<open>render\<close>: the Plotly Express call with the fixed trace and layout settings and the
    conversion \<^verbatim>\<open>json.loads(fig.to_json())\<close>;
  \<^item> \<open>json_loads\<close>: \<^verbatim>\<open>json.loads\<close>.
\<close>

datatype chart_kind = Bar | Pie | Donut

record plot_call =
  kind :: chart_kind
  data_frame :: table
  x_arg :: json
  y_arg :: json
  color_arg :: json
  title_arg :: json

record lib =
  parse_date :: "cell \<Rightarrow> int option"
  to_datetime :: "json \<Rightarrow> error + int option"
  year_and_month :: "int \<Rightarrow> nat \<times> nat"
  query :: "table \<Rightarrow> string \<Rightarrow> json \<Rightarrow> json \<Rightarrow> error + table"
  elem_eq :: "cell \<Rightarrow> json \<Rightarrow> bool"
  agg :: "json \<Rightarrow> cell list \<Rightarrow> error + cell"
  key_match :: "cell list \<Rightarrow> cell list \<Rightarrow> error + (cell \<Rightarrow> cell \<Rightarrow> bool)"
  with_nulls :: "cell list \<Rightarrow> cell \<Rightarrow> cell"
  render :: "plot_call \<Rightarrow> error + json"
  json_loads :: "string \<Rightarrow> error + json"

text \<open>\<^verbatim>\<open>pd.to_datetime(column, errors='coerce')\<close> on one cell.\<close>

definition coerce_cell :: "lib \<Rightarrow> cell \<Rightarrow> cell" where
  "coerce_cell P c =
     (if is_datetime_cell c then c
      else (case parse_date P c of None \<Rightarrow> CNull | Some d \<Rightarrow> CDate d))"

definition coerce_column :: "lib \<Rightarrow> table \<Rightarrow> string \<Rightarrow> table" where
  "coerce_column P df c = set_column df c (map (coerce_cell P) (column_cells df c))"

section \<open>Chart plans\<close>

subsection \<open>Filters\<close>

text \<open>
  \<^verbatim>\<open>operator = f.get('operator') or f.get('condition')\<close> and
  \<^verbatim>\<open>value = f.get('value') or f.get('values')\<close>
\<close>

definition filter_operator :: "(string \<times> json) list \<Rightarrow> json" where
  "filter_operator f = py_or (dict_get f ''operator'') (dict_get f ''condition'')"

definition filter_value :: "(string \<times> json) list \<Rightarrow> json" where
  "filter_value f = py_or (dict_get f ''value'') (dict_get f ''values'')"

text \<open>
  \<^verbatim>\<open>if "Data" in column and not is_datetime64_any_dtype(df[column]):
      df[column] = pd.to_datetime(df[column], errors='coerce')\<close>
\<close>

definition coerce_date_column :: "lib \<Rightarrow> table \<Rightarrow> string \<Rightarrow> error + table" where
  "coerce_date_column P df c =
     (if is_substr ''Data'' c
      then (if c \<notin> set (columns df) then Inl KeyError
            else if is_datetime_column df c then Inr df
            else Inr (coerce_column P df c))
      else Inr df)"

text \<open>
  \<^verbatim>\<open>Series.between(left, right)\<close> with its default \<^verbatim>\<open>inclusive='both'\<close>, that is
  \<^verbatim>\<open>(s >= left) & (s <= right)\<close>, against two timestamps. A null cell and a \<^verbatim>\<open>NaT\<close> bound
  compare false; a column that is not a datetime column cannot be compared with a timestamp.
\<close>

definition in_range :: "int option \<Rightarrow> int option \<Rightarrow> cell \<Rightarrow> bool" where
  "in_range lo hi c =
     (case (lo, hi, c) of (Some a, Some b, CDate d) \<Rightarrow> a \<le> d \<and> d \<le> b | _ \<Rightarrow> False)"

definition series_between :: "table \<Rightarrow> string \<Rightarrow> int option \<Rightarrow> int option \<Rightarrow> error + bool list" where
  "series_between df c lo hi =
     (if c \<notin> set (columns df) then Inl KeyError
      else if \<not> is_datetime_column df c then Inl TypeError
      else Inr (map (in_range lo hi) (column_cells df c)))"

text \<open>\<^verbatim>\<open>Series.isin(values)\<close>: the cells equal to some element of the list.\<close>

definition series_isin :: "lib \<Rightarrow> table \<Rightarrow> string \<Rightarrow> json list \<Rightarrow> error + bool list" where
  "series_isin P df c vs =
     (if c \<notin> set (columns df) then Inl KeyError
      else Inr (map (\<lambda>v. list_ex (elem_eq P v) vs) (column_cells df c)))"

fun as_pair :: "json \<Rightarrow> (json \<times> json) option" where
  "as_pair (JList [a, b]) = Some (a, b)"
| "as_pair v = None"

fun as_list :: "json \<Rightarrow> json list option" where
  "as_list (JList xs) = Some xs"
| "as_list v = None"

text \<open>The three branches of lines 208 to 214, on the column \<open>c\<close>.\<close>

definition filter_rows :: "lib \<Rightarrow> table \<Rightarrow> string \<Rightarrow> json \<Rightarrow> json \<Rightarrow> error + table" where
  "filter_rows P df c operator val =
     (if operator = JStr ''between'' \<and> as_pair val \<noteq> None then
        (case as_pair val of
           Some (a, b) \<Rightarrow>
             (case to_datetime P a of
                Inl e \<Rightarrow> Inl e
              | Inr start_date \<Rightarrow>
                  (case to_datetime P b of
                     Inl e \<Rightarrow> Inl e
                   | Inr end_date \<Rightarrow>
                       (case series_between df c start_date end_date of
                          Inl e \<Rightarrow> Inl e
                        | Inr keep \<Rightarrow> Inr (select_rows df keep))))
         | None \<Rightarrow> Inl TypeError)
      else if operator = JStr ''in'' \<and> as_list val \<noteq> None then
        (case as_list val of
           Some vs \<Rightarrow>
             (case series_isin P df c vs of
                Inl e \<Rightarrow> Inl e
              | Inr keep \<Rightarrow> Inr (select_rows df keep))
         | None \<Rightarrow> Inl TypeError)
      else query P df c operator val)"

text \<open>
  One round of the loop over the filters (lines 195 to 214). An entry without an operator
  is skipped after its column has been read. The column is a label: a string. \<^verbatim>\<open>"Data" in column\<close>
  raises on null, a number and a boolean; a list of labels would select a sub-frame, which
  the model does not follow and reports as an error too.
\<close>

definition apply_filter :: "lib \<Rightarrow> table \<Rightarrow> json \<Rightarrow> error + table" where
  "apply_filter P df f =
     (case f of
        JObj d \<Rightarrow>
          (case map_of d ''column'' of
             None \<Rightarrow> Inl KeyError
           | Some column \<Rightarrow>
               (let operator = filter_operator d; val = filter_value d in
                if \<not> truthy operator then Inr df
                else (case column of
                        JStr c \<Rightarrow>
                          (case coerce_date_column P df c of
                             Inl e \<Rightarrow> Inl e
                           | Inr df1 \<Rightarrow> filter_rows P df1 c operator val)
                      | _ \<Rightarrow> Inl TypeError)))
      | _ \<Rightarrow> Inl TypeError)"

fun apply_filters :: "lib \<Rightarrow> table \<Rightarrow> json list \<Rightarrow> error + table" where
  "apply_filters P df [] = Inr df"
| "apply_filters P df (f # fs) =
     (case apply_filter P df f of Inl e \<Rightarrow> Inl e | Inr df1 \<Rightarrow> apply_filters P df1 fs)"

subsection \<open>Grouping and aggregation\<close>

text \<open>
  Lines 222 to 226: a dict with one entry is read as column and function name; anything
  else is asked for its \<^verbatim>\<open>'column'\<close> and \<^verbatim>\<open>'function'\<close> entries, which only a dict has.
\<close>

definition resolve_aggregation :: "json \<Rightarrow> error + json \<times> json" where
  "resolve_aggregation agg_info =
     (case agg_info of
        JObj d \<Rightarrow>
          (if dict_len d = 1
           then (let agg_col = hd (dict_keys d) in Inr (JStr agg_col, dict_get d agg_col))
           else Inr (dict_get d ''column'', dict_get d ''function''))
      | _ \<Rightarrow> Inl AttributeError)"

text \<open>
  \<^verbatim>\<open>if color_col and color_col not in group_by_cols: group_by_cols.append(color_col)\<close>;
  only a list can be appended to.
\<close>

definition grouping_columns :: "json \<Rightarrow> json \<Rightarrow> error + json" where
  "grouping_columns group_by color_col =
     (if truthy color_col
      then (case py_in color_col group_by of
              Inl e \<Rightarrow> Inl e
            | Inr True \<Rightarrow> Inr group_by
            | Inr False \<Rightarrow>
                (case group_by of
                   JList xs \<Rightarrow> Inr (JList (xs @ [color_col]))
                 | _ \<Rightarrow> Inl AttributeError))
      else Inr group_by)"

text \<open>
  The text of a monthly period, \<^verbatim>\<open>YYYY-MM\<close>: the year in four decimal digits, a hyphen,
  the month in two. (The timestamps of pandas lie between the years 1677 and 2262.)
\<close>

definition digit :: "nat \<Rightarrow> char" where
  "digit n = char_of (48 + n mod 10)"

fun decimal :: "nat \<Rightarrow> nat \<Rightarrow> string" where
  "decimal 0 n = []"
| "decimal (Suc k) n = decimal k (n div 10) @ [digit n]"

definition period_text :: "nat \<times> nat \<Rightarrow> string" where
  "period_text ym = decimal 4 (fst ym) @ ''-'' @ decimal 2 (snd ym)"

text \<open>
  \<^verbatim>\<open>df['Ano-Mes'] = df['Data_Movimento_mov'].dt.to_period('M').astype(str)\<close>; the
  accessor \<^verbatim>\<open>.dt\<close> needs a datetime column, and the text of a null date is \<^verbatim>\<open>NaT\<close>.
\<close>

definition month_text :: "lib \<Rightarrow> cell \<Rightarrow> cell" where
  "month_text P c =
     (case c of CDate d \<Rightarrow> CStr (period_text (year_and_month P d)) | _ \<Rightarrow> CStr ''NaT'')"

definition add_ano_mes :: "lib \<Rightarrow> table \<Rightarrow> error + table" where
  "add_ano_mes P df =
     (if ''Data_Movimento_mov'' \<notin> set (columns df) then Inl KeyError
      else if \<not> is_datetime_column df ''Data_Movimento_mov'' then Inl AttributeError
      else Inr (set_column df Ano_Mes
                  (map (month_text P) (column_cells df ''Data_Movimento_mov''))))"

text \<open>
  The order pandas sorts cells in: nulls last, numbers and booleans by value, timestamps by
  time, strings lexicographically. Cells of different kinds cannot be compared.
\<close>

fun cell_key :: "cell \<Rightarrow> nat \<times> int \<times> string" where
  "cell_key CNull = (1, 0, [])"
| "cell_key (CBool b) = (0, (if b then 1 else 0), [])"
| "cell_key (CInt i) = (0, i, [])"
| "cell_key (CDate d) = (0, d, [])"
| "cell_key (CStr s) = (0, 0, s)"

fun is_number_cell :: "cell \<Rightarrow> bool" where
  "is_number_cell (CInt i) = True"
| "is_number_cell (CBool b) = True"
| "is_number_cell CNull = True"
| "is_number_cell c = False"

fun is_string_cell :: "cell \<Rightarrow> bool" where
  "is_string_cell (CStr s) = True"
| "is_string_cell CNull = True"
| "is_string_cell c = False"

definition comparable :: "cell list \<Rightarrow> bool" where
  "comparable cs =
     (list_all is_string_cell cs \<or> list_all is_number_cell cs \<or> list_all is_datetime_cell cs)"

fun map_e :: "('a \<Rightarrow> error + 'b) \<Rightarrow> 'a list \<Rightarrow> error + 'b list" where
  "map_e f [] = Inr []"
| "map_e f (a # as) =
     (case f a of
        Inl e \<Rightarrow> Inl e
      | Inr b \<Rightarrow> (case map_e f as of Inl e \<Rightarrow> Inl e | Inr bs \<Rightarrow> Inr (b # bs)))"

fun is_column :: "table \<Rightarrow> json \<Rightarrow> bool" where
  "is_column df (JStr c) = (c \<in> set (columns df))"
| "is_column df v = False"

fun label :: "json \<Rightarrow> string" where
  "label (JStr c) = c"
| "label v = []"

definition key_of :: "table \<Rightarrow> string list \<Rightarrow> cell list \<Rightarrow> cell list" where
  "key_of df ks r = map (cell_at (columns df) r) ks"

text \<open>
  \<^verbatim>\<open>df.groupby(keys).agg({agg_col: agg_func}).reset_index()\<close>: every key and the
  aggregated column must be columns, and \<^verbatim>\<open>reset_index\<close> cannot insert a key under the
  name of the aggregated column. Rows with a null
  key are left out (\<^verbatim>\<open>dropna=True\<close>), the groups come in ascending order of their keys
  (\<^verbatim>\<open>sort=True\<close>), and the result has the key columns followed by the aggregated one, one
  row per group. \<open>agg\<close> stands for one named function; a list of functions, which makes
  several columns, is outside the model.
\<close>

definition groupby_agg :: "lib \<Rightarrow> table \<Rightarrow> json list \<Rightarrow> json \<Rightarrow> json \<Rightarrow> error + table" where
  "groupby_agg P df keys agg_col agg_func =
     (if \<not> list_all (is_column df) keys \<or> \<not> is_column df agg_col then Inl KeyError
      else if agg_col \<in> set keys then Inl ValueError
      else
        (let ks = map label keys;
             a = label agg_col;
             keyed = filter (\<lambda>r. CNull \<notin> set (key_of df ks r)) (rows df);
             groups = sort_key (map cell_key) (remdups (map (key_of df ks) keyed))
         in case map_e (\<lambda>g. case agg P agg_func
                                     (map (\<lambda>r. cell_at (columns df) r a)
                                        (filter (\<lambda>r. key_of df ks r = g) keyed)) of
                               Inl e \<Rightarrow> Inl e
                             | Inr v \<Rightarrow> Inr (g @ [v])) groups of
              Inl e \<Rightarrow> Inl e
            | Inr rs \<Rightarrow> Inr \<lparr>columns = ks @ [a], rows = rs\<rparr>))"

text \<open>
  Lines 219 to 237 once the aggregation descriptor has been resolved: the grouping columns
  with the colour column, the derived month column, and the grouped table, or the filtered
  table itself when there is nothing to group or to aggregate.
\<close>

definition aggregate_with ::
  "lib \<Rightarrow> (string \<times> json) list \<Rightarrow> json \<Rightarrow> table \<Rightarrow> json \<times> json \<Rightarrow> error + table" where
  "aggregate_with P t color_col df ag =
     (case grouping_columns (dict_get_default t ''group_by'' (JList [])) color_col of
        Inl e \<Rightarrow> Inl e
      | Inr group_by_cols \<Rightarrow>
          (case py_in (JStr Ano_Mes) group_by_cols of
             Inl e \<Rightarrow> Inl e
           | Inr has_month \<Rightarrow>
               (case (if has_month then add_ano_mes P df else Inr df) of
                  Inl e \<Rightarrow> Inl e
                | Inr df1 \<Rightarrow>
                    (if truthy group_by_cols \<and> truthy (fst ag) \<and> truthy (snd ag)
                     then (case py_list_set group_by_cols of
                             Inl e \<Rightarrow> Inl e
                           | Inr keys \<Rightarrow> groupby_agg P df1 keys (fst ag) (snd ag))
                     else Inr df1))))"

definition aggregate ::
  "lib \<Rightarrow> (string \<times> json) list \<Rightarrow> json \<Rightarrow> table \<Rightarrow> error + table \<times> json" where
  "aggregate P t color_col df =
     (case resolve_aggregation (dict_get_default t ''aggregation'' (JObj [])) of
        Inl e \<Rightarrow> Inl e
      | Inr ag \<Rightarrow>
          (case aggregate_with P t color_col df ag of
             Inl e \<Rightarrow> Inl e
           | Inr df_agg \<Rightarrow> Inr (df_agg, fst ag)))"

subsection \<open>The chart\<close>

text \<open>
  \<^verbatim>\<open>df.sort_values(by=c)\<close>: ascending, nulls last. pandas does not promise to keep the
  order of rows with equal keys; the model uses a stable sort. \<open>by\<close> is one column label; a
  list of labels is outside the model and reported as an error.
\<close>

definition sort_values :: "table \<Rightarrow> json \<Rightarrow> error + table" where
  "sort_values df by =
     (case by of
        JStr c \<Rightarrow>
          (if c \<notin> set (columns df) then Inl KeyError
           else if \<not> comparable (column_cells df c) then Inl TypeError
           else Inr (df\<lparr>rows := sort_key (\<lambda>r. cell_key (cell_at (columns df) r c)) (rows df)\<rparr>))
      | _ \<Rightarrow> Inl KeyError)"

text \<open>A column of strings, and the strings it holds from the first row to the last.\<close>

fun is_text :: "cell \<Rightarrow> bool" where
  "is_text (CStr s) = True"
| "is_text c = False"

fun text_of :: "cell \<Rightarrow> string" where
  "text_of (CStr s) = s"
| "text_of c = []"

definition text_column :: "table \<Rightarrow> string \<Rightarrow> bool" where
  "text_column df c = (c \<in> set (columns df) \<and> list_all is_text (column_cells df c))"

definition texts :: "table \<Rightarrow> string \<Rightarrow> string list" where
  "texts df c = map text_of (column_cells df c)"

text \<open>
  Lines 241 to 277: the call of Plotly Express that the plan leads to, if any. \<open>Bar\<close> is
  \<^verbatim>\<open>px.bar(df_agg, x, y, color, title)\<close>; \<open>Pie\<close> and \<open>Donut\<close> are
  \<^verbatim>\<open>px.pie(df_agg, names, values, hole, title)\<close> with hole 0 and 0.4, where \<open>x_arg\<close> holds
  the names and \<open>y_arg\<close> the values and no colour is passed.
\<close>

definition chart_call :: "(string \<times> json) list \<Rightarrow> table \<Rightarrow> json \<Rightarrow> error + plot_call option" where
  "chart_call p df_agg agg_col =
     (let chart_type = dict_get p ''chart_type'';
          title = dict_get p ''title'';
          x_axis = dict_get p ''x_axis'';
          y_axis = agg_col;
          color_col = dict_get p ''color''
      in if chart_type = JStr ''bar'' then
           (let x_axis1 = (if Ano_Mes \<in> set (columns df_agg) then JStr Ano_Mes else x_axis)
            in case sort_values df_agg x_axis1 of
                 Inl e \<Rightarrow> Inl e
               | Inr df_sorted \<Rightarrow>
                   Inr (Some \<lparr>kind = Bar, data_frame = df_sorted, x_arg = x_axis1,
                              y_arg = y_axis, color_arg = color_col, title_arg = title\<rparr>))
         else if chart_type = JStr ''pie'' \<or> chart_type = JStr ''donut'' then
           Inr (Some \<lparr>kind = (if chart_type = JStr ''donut'' then Donut else Pie),
                      data_frame = df_agg, x_arg = x_axis, y_arg = y_axis,
                      color_arg = JNull, title_arg = title\<rparr>)
         else Inr None)"

text \<open>
  The body of \<^verbatim>\<open>gerar_grafico_plotly\<close> up to the Plotly Express call: \<open>Inr None\<close> is a
  \<^verbatim>\<open>return None\<close> (or no figure), \<open>Inl\<close> an exception.
\<close>

definition plot_plan :: "lib \<Rightarrow> json \<Rightarrow> table \<Rightarrow> error + plot_call option" where
  "plot_plan P plan df_original =
     (case plan of
        JObj p \<Rightarrow>
          (let transformation = dict_get p ''data_transformation'' in
           if \<not> truthy transformation then Inr None
           else
             (case transformation of
                JObj t \<Rightarrow>
                  (case py_iter (dict_get_default t ''filters'' (JList [])) of
                     Inl e \<Rightarrow> Inl e
                   | Inr filters \<Rightarrow>
                       (case apply_filters P df_original filters of
                          Inl e \<Rightarrow> Inl e
                        | Inr df \<Rightarrow>
                            if df_empty df then Inr None
                            else
                              (case aggregate P t (dict_get p ''color'') df of
                                 Inl e \<Rightarrow> Inl e
                               | Inr (df_agg, agg_col) \<Rightarrow>
                                   if df_empty df_agg then Inr None
                                   else chart_call p df_agg agg_col)))
              | _ \<Rightarrow> Inl AttributeError))
      | _ \<Rightarrow> Inl AttributeError)"

text \<open>
  \<^verbatim>\<open>gerar_grafico_plotly(plan, df_original)\<close>: the figure as JSON, or \<open>None\<close>. The
  \<^verbatim>\<open>try\<close> around the whole body turns every exception into \<open>None\<close>.
\<close>

definition gerar_grafico_plotly :: "lib \<Rightarrow> json \<Rightarrow> table \<Rightarrow> json option" where
  "gerar_grafico_plotly P plan df_original =
     (case plot_plan P plan df_original of
        Inr (Some call) \<Rightarrow> (case render P call of Inr spec \<Rightarrow> Some spec | Inl e \<Rightarrow> None)
      | _ \<Rightarrow> None)"

section \<open>The conversation\<close>

subsection \<open>Extracting the JSON answer\<close>

text \<open>\<^verbatim>\<open>text.find(c)\<close> and \<^verbatim>\<open>text.rfind(c)\<close>: the first and the last position of a
  character, \<open>-1\<close> when it does not occur; \<^verbatim>\<open>text[i:j]\<close> for indices that are not negative.\<close>

definition py_find :: "char \<Rightarrow> string \<Rightarrow> int" where
  "py_find c s = (if c \<in> set s then int (index_of c s) else - 1)"

definition py_rfind :: "char \<Rightarrow> string \<Rightarrow> int" where
  "py_rfind c s = (if c \<in> set s then int (length s - 1 - index_of c (rev s)) else - 1)"

definition py_slice :: "string \<Rightarrow> int \<Rightarrow> int \<Rightarrow> string" where
  "py_slice s i j = take (nat j - nat i) (drop (nat i) s)"

text \<open>\<^verbatim>\<open>extrair_json(text)\<close>: the span from the first opening brace to the last closing
  brace, parsed; \<open>None\<close> when a brace is missing or the parser raises.\<close>

definition extrair_json :: "lib \<Rightarrow> string \<Rightarrow> json option" where
  "extrair_json P text =
     (let start_index = py_find CHR ''{'' text;
          end_index = py_rfind CHR ''}'' text + 1
      in if start_index = - 1 \<or> end_index = 0 then None
         else (case json_loads P (py_slice text start_index end_index) of
                 Inl e \<Rightarrow> None
               | Inr v \<Rightarrow> Some v))"

text \<open>The span that \<^verbatim>\<open>extrair_json\<close> hands to the parser.\<close>

definition json_span :: "string \<Rightarrow> string" where
  "json_span text = py_slice text (py_find CHR ''{'' text) (py_rfind CHR ''}'' text + 1)"

subsection \<open>The route \<^verbatim>\<open>/ask\<close>\<close>

text \<open>
  The session holds the history under the key \<^verbatim>\<open>'history'\<close>, or nothing yet: a list of
  turns \<^verbatim>\<open>{'q': question, 'a': answer}\<close>. The four fixed texts of the route are named by
  what they say.
\<close>

type_synonym turn = "json \<times> json"

type_synonym session = "turn list option"

datatype message =
    Data_unavailable
  | Ask_a_question
  | Model_response_error
  | Unexpected_error

datatype response =
    Message nat message
  | Answer json json "json list"

definition history :: "session \<Rightarrow> turn list" where
  "history s = (case s of None \<Rightarrow> [] | Some h \<Rightarrow> h)"

text \<open>Lines 409 to 412: append the turn, then drop the oldest one if there are more than
  three.\<close>

definition update_history :: "turn list \<Rightarrow> turn \<Rightarrow> turn list" where
  "update_history h t = (let h1 = h @ [t] in if length h1 > 3 then tl h1 else h1)"

text \<open>
  \<^verbatim>\<open>charts_json = [spec for plan in chart_plans if (spec := gerar_grafico_plotly(plan, df)) is not None]\<close>
\<close>

definition charts_json :: "lib \<Rightarrow> table \<Rightarrow> json list \<Rightarrow> json list" where
  "charts_json P df chart_plans = List.map_filter (\<lambda>plan. gerar_grafico_plotly P plan df) chart_plans"

text \<open>
  One request. The inputs are the result of \<^verbatim>\<open>get_data()\<close>, the session, the JSON body of
  the request and what the language model does with the prompt: it raises, or it returns a
  text. (The prompt is built from the history, the frame and the question and has no other
  use, so it is not modelled.) The result is the response, or the exception that leaves the
  route, and the session afterwards.
\<close>

definition ask_gemini ::
  "lib \<Rightarrow> table option \<Rightarrow> session \<Rightarrow> json \<Rightarrow> error + string \<Rightarrow> (error + response) \<times> session" where
  "ask_gemini P data_opt s body reply =
     (case data_opt of
        None \<Rightarrow> (Inr (Message 500 Data_unavailable), s)
      | Some df \<Rightarrow>
          (let s1 = Some (history s) in
           case body of
             JObj d \<Rightarrow>
               (let question = dict_get d ''question'' in
                if \<not> truthy question then (Inr (Message 400 Ask_a_question), s1)
                else
                  (case reply of
                     Inl e \<Rightarrow> (Inr (Message 500 Unexpected_error), s1)
                   | Inr text \<Rightarrow>
                       (case extrair_json P text of
                          None \<Rightarrow> (Inr (Message 500 Model_response_error), s1)
                        | Some response_json \<Rightarrow>
                            if \<not> truthy response_json
                            then (Inr (Message 500 Model_response_error), s1)
                            else
                              (case response_json of
                                 JObj r \<Rightarrow>
                                   (let text_answer = dict_get r ''answer'';
                                        insight_text = dict_get r ''insight_text''
                                    in case py_iter (dict_get_default r ''chart_plans'' (JList [])) of
                                         Inl e \<Rightarrow> (Inr (Message 500 Unexpected_error), s1)
                                       | Inr chart_plans \<Rightarrow>
                                           (Inr (Answer text_answer insight_text
                                                   (charts_json P df chart_plans)),
                                            Some (update_history (history s)
                                                    (question, text_answer))))
                               | _ \<Rightarrow> (Inr (Message 500 Unexpected_error), s1)))))
           | _ \<Rightarrow> (Inl AttributeError, s1)))"

text \<open>A request, and the session carried through a sequence of requests.\<close>

record request =
  rq_frame :: "table option"
  rq_body :: json
  rq_reply :: "error + string"

definition ask :: "lib \<Rightarrow> session \<Rightarrow> request \<Rightarrow> (error + response) \<times> session" where
  "ask P s rq = ask_gemini P (rq_frame rq) s (rq_body rq) (rq_reply rq)"

fun conversation :: "lib \<Rightarrow> session \<Rightarrow> request list \<Rightarrow> session" where
  "conversation P s [] = s"
| "conversation P s (rq # rqs) = conversation P (snd (ask P s rq)) rqs"

text \<open>A request is answered when the route returns the answer with its charts; the turn
  it then records is the question of the body and the answer of the response.\<close>

fun is_answer :: "error + response \<Rightarrow> bool" where
  "is_answer (Inr (Answer a i cs)) = True"
| "is_answer r = False"

fun answer_of :: "error + response \<Rightarrow> json" where
  "answer_of (Inr (Answer a i cs)) = a"
| "answer_of r = JNull"

fun question_of :: "json \<Rightarrow> json" where
  "question_of (JObj d) = dict_get d ''question''"
| "question_of v = JNull"

definition answered :: "lib \<Rightarrow> request \<Rightarrow> bool" where
  "answered P rq = is_answer (fst (ask P None rq))"

definition turn_of :: "lib \<Rightarrow> request \<Rightarrow> turn" where
  "turn_of P rq = (question_of (rq_body rq), answer_of (fst (ask P None rq)))"

section \<open>Loading the data\<close>

subsection \<open>The left join\<close>

text \<open>
  \<^verbatim>\<open>L.merge(R, on=key, how="left", suffixes=(ls, rs))\<close>. The key must be a column of both
  frames, and the two key columns must be of dtypes that can be merged. A column other than
  the key that both frames have gets the suffixes. Every row of \<open>L\<close>, in order, is paired
  with each of its partners, the rows of \<open>R\<close> whose key pandas takes as equal to its own, and
  with nulls when it has none. The columns of \<open>R\<close> then have to take nulls, which changes the
  cells that come from \<open>R\<close> in the other rows, column by column, as \<open>with_nulls\<close> says. The
  cells of \<open>L\<close> stay as they are. Frames with a repeated label and suffixes that lead to one
  are refused.
\<close>

definition partners :: "lib \<Rightarrow> table \<Rightarrow> table \<Rightarrow> string \<Rightarrow> cell list \<Rightarrow> cell list list" where
  "partners P L R key l =
     (case key_match P (column_cells L key) (column_cells R key) of
        Inl e \<Rightarrow> []
      | Inr same \<Rightarrow>
          filter (\<lambda>r. same (cell_at (columns L) l key) (cell_at (columns R) r key)) (rows R))"

definition without_key :: "table \<Rightarrow> string \<Rightarrow> cell list \<Rightarrow> cell list" where
  "without_key R key r =
     (let i = index_of key (columns R); r1 = fit (length (columns R)) r
      in take i r1 @ drop (Suc i) r1)"

definition all_matched :: "lib \<Rightarrow> table \<Rightarrow> table \<Rightarrow> string \<Rightarrow> bool" where
  "all_matched P L R key = list_all (\<lambda>l. partners P L R key l \<noteq> []) (rows L)"

definition right_part :: "lib \<Rightarrow> table \<Rightarrow> table \<Rightarrow> string \<Rightarrow> cell list \<Rightarrow> cell list" where
  "right_part P L R key r =
     (if all_matched P L R key then without_key R key r
      else map2 (\<lambda>c v. with_nulls P (column_cells R c) v)
             (filter (\<lambda>c. c \<noteq> key) (columns R)) (without_key R key r))"

definition join_rows :: "lib \<Rightarrow> table \<Rightarrow> table \<Rightarrow> string \<Rightarrow> cell list \<Rightarrow> cell list list" where
  "join_rows P L R key l =
     (let l1 = fit (length (columns L)) l;
          ms = partners P L R key l
      in if ms = [] then [l1 @ replicate (length (columns R) - 1) CNull]
         else map (\<lambda>r. l1 @ right_part P L R key r) ms)"

definition merge_left ::
  "lib \<Rightarrow> table \<Rightarrow> table \<Rightarrow> string \<Rightarrow> string \<times> string \<Rightarrow> error + table" where
  "merge_left P L R key sfx =
     (if key \<notin> set (columns L) \<or> key \<notin> set (columns R) then Inl KeyError
      else
        (case key_match P (column_cells L key) (column_cells R key) of
           Inl e \<Rightarrow> Inl e
         | Inr same \<Rightarrow>
             (let lcols = map (\<lambda>c. if c \<noteq> key \<and> c \<in> set (columns R) then c @ fst sfx else c)
                            (columns L);
                  rcols = map (\<lambda>c. if c \<in> set (columns L) then c @ snd sfx else c)
                            (filter (\<lambda>c. c \<noteq> key) (columns R))
              in if \<not> distinct (columns L) \<or> \<not> distinct (columns R)
                    \<or> \<not> distinct (lcols @ rcols)
                 then Inl MergeError
                 else Inr \<lparr>columns = lcols @ rcols,
                           rows = concat (map (join_rows P L R key) (rows L))\<rparr>)))"

text \<open>
  A join in which no row of the left frame has more than one partner, and what a left join
  owes to the rows of its left frame: each of them is the beginning of a row of the result,
  and one without a partner in the right frame is there followed by nulls in all the columns
  that the right frame adds. A key column without repeated values gives a row at most one
  partner when keys are compared exactly.
\<close>

definition single_partner :: "lib \<Rightarrow> table \<Rightarrow> table \<Rightarrow> string \<Rightarrow> bool" where
  "single_partner P L R key = (\<forall>l \<in> set (rows L). length (partners P L R key l) \<le> 1)"

definition unique_key :: "table \<Rightarrow> string \<Rightarrow> bool" where
  "unique_key R key = distinct (column_cells R key)"

definition keeps_left_rows :: "lib \<Rightarrow> table \<Rightarrow> table \<Rightarrow> string \<Rightarrow> table \<Rightarrow> bool" where
  "keeps_left_rows P L R key T =
     (\<forall>l \<in> set (rows L).
        (\<exists>r \<in> set (rows T). prefix (fit (length (columns L)) l) r)
        \<and> (partners P L R key l = []
             \<longrightarrow> fit (length (columns L)) l @ replicate (length (columns R) - 1) CNull
                   \<in> set (rows T)))"

definition default_suffixes :: "string \<times> string" where
  "default_suffixes = (''_x'', ''_y'')"

text \<open>\<^verbatim>\<open>df.rename(columns={old: new})\<close>\<close>

definition rename_column :: "table \<Rightarrow> string \<Rightarrow> string \<Rightarrow> table" where
  "rename_column df old new = df\<lparr>columns := map (\<lambda>c. if c = old then new else c) (columns df)\<rparr>"

subsection \<open>\<^verbatim>\<open>get_data\<close>\<close>

text \<open>
  The Drive connection is absent, or it answers the listing with an exception or with files;
  a file has a name and the outcome of downloading and parsing it
  (\<^verbatim>\<open>pd.read_csv\<close>). The table of modification times that the function also fills, and the
  cache around it, play no part in the result.
\<close>

record drive_file =
  file_name :: string
  content :: "error + table"

type_synonym drive = "(error + drive_file list) option"

text \<open>\<^verbatim>\<open>str.lower\<close> on code points below 256.\<close>

definition lower_char :: "char \<Rightarrow> char" where
  "lower_char c =
     (let n = (of_char c :: nat)
      in if (65 \<le> n \<and> n \<le> 90) \<or> (192 \<le> n \<and> n \<le> 222 \<and> n \<noteq> 215)
         then char_of (n + 32) else c)"

definition lower :: "string \<Rightarrow> string" where
  "lower s = map lower_char s"

definition csv_files :: "(string \<times> string) list" where
  "csv_files =
     [(''parceiros.csv'', ''parceiros''), (''clientes.csv'', ''clientes''),
      (''contas.csv'', ''contas''), (''movimentos_contas.csv'', ''movimentos''),
      (''classificacao_ultimo_movimento.csv'', ''classificacao'')]"

text \<open>The loop over the listed files (lines 149 to 156); a later file of the same role
  replaces an earlier one.\<close>

fun load_files :: "(string \<times> table) list \<Rightarrow> drive_file list \<Rightarrow> error + (string \<times> table) list" where
  "load_files local_dataframes [] = Inr local_dataframes"
| "load_files local_dataframes (item # items) =
     (case map_of csv_files (lower (file_name item)) of
        None \<Rightarrow> load_files local_dataframes items
      | Some df_name \<Rightarrow>
          (case content item of
             Inl e \<Rightarrow> Inl e
           | Inr df \<Rightarrow> load_files ((df_name, df) # local_dataframes) items))"

text \<open>\<^verbatim>\<open>local_dataframes[name]\<close>\<close>

definition frame_of :: "(string \<times> table) list \<Rightarrow> string \<Rightarrow> error + table" where
  "frame_of local_dataframes name =
     (case map_of local_dataframes name of None \<Rightarrow> Inl KeyError | Some df \<Rightarrow> Inr df)"

text \<open>The chain of four left joins (lines 163 to 166).\<close>

definition merge_chain ::
  "lib \<Rightarrow> table \<Rightarrow> table \<Rightarrow> table \<Rightarrow> table \<Rightarrow> table \<Rightarrow> error + table" where
  "merge_chain P df_mov contas clientes df_class parceiros =
     (case merge_left P df_mov contas ''ID_Conta'' default_suffixes of
        Inl e \<Rightarrow> Inl e
      | Inr t1 \<Rightarrow>
          (case merge_left P t1 clientes ''ID_Cliente'' default_suffixes of
             Inl e \<Rightarrow> Inl e
           | Inr t2 \<Rightarrow>
               (case merge_left P t2 df_class ''ID_Conta'' (''_mov'', ''_class'') of
                  Inl e \<Rightarrow> Inl e
                | Inr t3 \<Rightarrow> merge_left P t3 parceiros ''ID_Parceiro'' default_suffixes)))"

text \<open>Lines 159 to 166: the five frames are looked up, the classification's date column
  is renamed, and the chain is run.\<close>

definition merged_frame :: "lib \<Rightarrow> (string \<times> table) list \<Rightarrow> error + table" where
  "merged_frame P local_dataframes =
     (case frame_of local_dataframes ''movimentos'' of
        Inl e \<Rightarrow> Inl e
      | Inr df_mov \<Rightarrow>
     (case frame_of local_dataframes ''classificacao'' of
        Inl e \<Rightarrow> Inl e
      | Inr df_class0 \<Rightarrow>
     (case frame_of local_dataframes ''contas'' of
        Inl e \<Rightarrow> Inl e
      | Inr contas \<Rightarrow>
     (case frame_of local_dataframes ''clientes'' of
        Inl e \<Rightarrow> Inl e
      | Inr clientes \<Rightarrow>
     (case frame_of local_dataframes ''parceiros'' of
        Inl e \<Rightarrow> Inl e
      | Inr parceiros \<Rightarrow>
          merge_chain P df_mov contas clientes
            (rename_column df_class0 ''Data_Ultimo_Movimento'' ''Data_Movimento'')
            parceiros)))))"

text \<open>Lines 169 to 171: every column with \<^verbatim>\<open>Data\<close> in its name becomes a datetime column.\<close>

definition coerce_dates :: "lib \<Rightarrow> table \<Rightarrow> table" where
  "coerce_dates P df =
     fold (\<lambda>col d. if is_substr ''Data'' col then coerce_column P d col else d) (columns df) df"

definition get_data :: "lib \<Rightarrow> drive \<Rightarrow> table option" where
  "get_data P drive_service =
     (case drive_service of
        None \<Rightarrow> None
      | Some (Inl e) \<Rightarrow> None
      | Some (Inr items) \<Rightarrow>
          (case load_files [] items of
             Inl e \<Rightarrow> None
           | Inr local_dataframes \<Rightarrow>
               (case merged_frame P local_dataframes of
                  Inl e \<Rightarrow> None
                | Inr final_df \<Rightarrow> Some (coerce_dates P final_df))))"

section \<open>A concrete instance\<close>

text \<open>
  An instance of the library parameters, small enough to compute with, and a few frames and
  plans. Its timestamps count months from January 2000; dates are read from integer cells and
  from JSON numbers; the only query operator is \<^verbatim>\<open>==\<close> against a number; the aggregation
  functions are \<^verbatim>\<open>count\<close> and \<^verbatim>\<open>sum\<close>; keys of integers cannot be merged with keys of
  strings and are otherwise compared exactly, and taking a null leaves a cell as it is (the
  integers of the frames below are small enough for that); the figure is a JSON object that
  records the arguments of the call; the parser knows three texts.
\<close>

definition demo_calendar :: "int \<Rightarrow> nat \<times> nat" where
  "demo_calendar d = (2000 + nat d div 12, nat d mod 12 + 1)"

fun int_of_cell :: "cell \<Rightarrow> int" where
  "int_of_cell (CInt i) = i"
| "int_of_cell c = 0"

definition cells_json :: "cell list \<Rightarrow> json" where
  "cells_json cs =
     JList (map (\<lambda>c. case c of CStr s \<Rightarrow> JStr s | CInt i \<Rightarrow> JNum i | CDate d \<Rightarrow> JNum d
                      | CBool b \<Rightarrow> JBool b | CNull \<Rightarrow> JNull) cs)"

definition quoted :: "string \<Rightarrow> string" where
  "quoted s = CHR 0x22 # s @ [CHR 0x22]"

definition answer_text :: string where
  "answer_text = ''{'' @ quoted ''answer'' @ '': '' @ quoted ''ok'' @ ''}''"

text \<open>The JSON text of \<open>demo_plan chart_type count_clients\<close> and of an answer with three
  plans, the second of a chart type that does not exist.\<close>

definition plan_text :: "string \<Rightarrow> string" where
  "plan_text chart_type =
     ''{'' @ quoted ''data_transformation'' @ '': {'' @ quoted ''aggregation'' @ '': {''
       @ quoted ''ID_Cliente'' @ '': '' @ quoted ''count'' @ ''}, '' @ quoted ''group_by''
       @ '': ['' @ quoted (''Ano-M'' @ [CHR 0xEA] @ ''s'') @ '']}, '' @ quoted ''chart_type'' @ '': ''
       @ quoted chart_type @ '', '' @ quoted ''x_axis'' @ '': '' @ quoted ''Status'' @ ''}''"

definition plans_text :: string where
  "plans_text =
     ''{'' @ quoted ''answer'' @ '': '' @ quoted ''ok'' @ '', '' @ quoted ''chart_plans'' @ '': [''
       @ plan_text ''bar'' @ '', '' @ plan_text ''scatter3d'' @ '', '' @ plan_text ''pie'' @ '']}''"

definition plan_value :: "string \<Rightarrow> json" where
  "plan_value chart_type =
     JObj [(''data_transformation'',
              JObj [(''aggregation'', JObj [(''ID_Cliente'', JStr ''count'')]),
                    (''group_by'', JList [JStr (''Ano-M'' @ [CHR 0xEA] @ ''s'')])]),
           (''chart_type'', JStr chart_type), (''x_axis'', JStr ''Status'')]"

fun is_int :: "cell \<Rightarrow> bool" where
  "is_int (CInt i) = True"
| "is_int c = False"

definition demo_key_match :: "cell list \<Rightarrow> cell list \<Rightarrow> error + (cell \<Rightarrow> cell \<Rightarrow> bool)" where
  "demo_key_match ls rs =
     (if (list_ex is_int ls \<and> list_ex is_text rs) \<or> (list_ex is_text ls \<and> list_ex is_int rs)
      then Inl ValueError
      else Inr (\<lambda>a b. a = b))"

definition demo_lib :: lib where
  "demo_lib =
     \<lparr>parse_date = (\<lambda>c. case c of CInt i \<Rightarrow> Some i | _ \<Rightarrow> None),
      to_datetime = (\<lambda>v. case v of JNum n \<Rightarrow> Inr (Some n) | _ \<Rightarrow> Inl ValueError),
      year_and_month = demo_calendar,
      query = (\<lambda>df c operator v.
                 if operator = JStr ''=='' \<and> c \<in> set (columns df)
                 then (case v of
                         JNum n \<Rightarrow> Inr (select_rows df (map (\<lambda>x. x = CInt n) (column_cells df c)))
                       | _ \<Rightarrow> Inr (select_rows df []))
                 else Inl LibraryError),
      elem_eq = (\<lambda>c v. case (c, v) of
                          (CInt i, JNum n) \<Rightarrow> i = n
                        | (CStr a, JStr b) \<Rightarrow> a = b
                        | _ \<Rightarrow> False),
      agg = (\<lambda>f cs. if f = JStr ''count'' then Inr (CInt (int (length (filter (\<lambda>c. c \<noteq> CNull) cs))))
                     else if f = JStr ''sum'' then Inr (CInt (sum_list (map int_of_cell cs)))
                     else Inl AttributeError),
      key_match = demo_key_match,
      with_nulls = (\<lambda>cells c. c),
      render = (\<lambda>call. Inr (JObj [(''x'', x_arg call), (''y'', y_arg call),
                                   (''rows'', JList (map cells_json (rows (data_frame call))))])),
      json_loads = (\<lambda>s. if s = answer_text then Inr (JObj [(''answer'', JStr ''ok'')])
                         else if s = ''{}'' then Inr (JObj [])
                         else if s = plans_text
                         then Inr (JObj [(''answer'', JStr ''ok''),
                                         (''chart_plans'',
                                          JList [plan_value ''bar'', plan_value ''scatter3d'',
                                                 plan_value ''pie''])])
                         else Inl ValueError)\<rparr>"

text \<open>A joined frame with four movements in three months, in no particular order.\<close>

definition demo_frame :: table where
  "demo_frame =
     \<lparr>columns = [''ID_Cliente'', ''Data_Movimento_mov'', ''Valor'', ''Status''],
      rows = [[CInt 1, CDate 290, CInt 50, CStr ''A''],
              [CInt 2, CDate 288, CInt 20, CStr ''B''],
              [CInt 3, CDate 289, CInt 0, CStr ''A''],
              [CInt 4, CDate 288, CInt 70, CStr ''C'']]\<rparr>"

text \<open>The plan of the end-to-end scenario, with an x-axis that names another column.\<close>

definition demo_transformation :: "(string \<times> json) list" where
  "demo_transformation = [(''group_by'', JList [JStr Ano_Mes])]"

definition demo_axes :: "string \<Rightarrow> (string \<times> json) list" where
  "demo_axes chart_type = [(''chart_type'', JStr chart_type), (''x_axis'', JStr ''Status'')]"

definition demo_plan :: "string \<Rightarrow> json \<Rightarrow> json" where
  "demo_plan chart_type aggregation =
     JObj ((''data_transformation'', JObj ((''aggregation'', aggregation) # demo_transformation))
           # demo_axes chart_type)"

definition count_clients :: json where
  "count_clients = JObj [(''ID_Cliente'', JStr ''count'')]"

text \<open>A frame whose grouping key is null in every row.\<close>

definition null_frame :: table where
  "null_frame = \<lparr>columns = [''K'', ''V''], rows = [[CNull, CInt 1], [CNull, CInt 2]]\<rparr>"

text \<open>A request with a question, answered by the model with the short answer text.\<close>

definition demo_request :: "string \<Rightarrow> request" where
  "demo_request q =
     \<lparr>rq_frame = Some demo_frame, rq_body = JObj [(''question'', JStr q)],
      rq_reply = Inr (''Sure. '' @ answer_text)\<rparr>"

text \<open>Five loaded files. The account table lists account 10 twice; movement 2 is on an
  account that the account table does not have.\<close>

definition demo_movimentos :: table where
  "demo_movimentos =
     \<lparr>columns = [''ID_Movimento'', ''ID_Conta'', ''Data_Movimento''],
      rows = [[CInt 1, CInt 10, CInt 288], [CInt 2, CInt 99, CStr ''?'']]\<rparr>"

definition demo_contas :: table where
  "demo_contas =
     \<lparr>columns = [''ID_Conta'', ''ID_Cliente''],
      rows = [[CInt 10, CInt 7], [CInt 10, CInt 8]]\<rparr>"

definition demo_contas_unique :: table where
  "demo_contas_unique =
     \<lparr>columns = [''ID_Conta'', ''ID_Cliente''],
      rows = [[CInt 10, CInt 7], [CInt 11, CInt 8]]\<rparr>"

definition demo_clientes :: table where
  "demo_clientes =
     \<lparr>columns = [''ID_Cliente'', ''ID_Parceiro''],
      rows = [[CInt 7, CInt 3], [CInt 8, CInt 3]]\<rparr>"

definition demo_classificacao :: table where
  "demo_classificacao =
     \<lparr>columns = [''ID_Conta'', ''Data_Ultimo_Movimento''],
      rows = [[CInt 10, CInt 290]]\<rparr>"

definition demo_parceiros :: table where
  "demo_parceiros =
     \<lparr>columns = [''ID_Parceiro'', ''Parceiro''],
      rows = [[CInt 3, CStr ''P'']]\<rparr>"

definition demo_drive :: "table \<Rightarrow> drive" where
  "demo_drive contas =
     Some (Inr [\<lparr>file_name = ''Movimentos_Contas.csv'', content = Inr demo_movimentos\<rparr>,
                \<lparr>file_name = ''contas.csv'', content = Inr contas\<rparr>,
                \<lparr>file_name = ''clientes.csv'', content = Inr demo_clientes\<rparr>,
                \<lparr>file_name = ''notes.csv'', content = Inl ValueError\<rparr>,
                \<lparr>file_name = ''classificacao_ultimo_movimento.csv'', content = Inr demo_classificacao\<rparr>,
                \<lparr>file_name = ''parceiros.csv'', content = Inr demo_parceiros\<rparr>])"

section \<open>Properties\<close>

subsection \<open>Dicts\<close>

lemma dict_get_cons: "dict_get ((k, v) # d) k' = (if k' = k then v else dict_get d k')"
  by (simp add: dict_get_def dict_get_default_def)

lemma dict_get_default_cons:
  "dict_get_default ((k, v) # d) k' dflt = (if k' = k then v else dict_get_default d k' dflt)"
  by (simp add: dict_get_default_def)

lemma set_first_occurrences: "set (first_occurrences xs) = set xs"
  by (induction xs rule: first_occurrences.induct) auto

lemma distinct_first_occurrences: "distinct (first_occurrences xs)"
  by (induction xs rule: first_occurrences.induct) (auto simp: set_first_occurrences)

lemma dict_len_card: "dict_len d = card (fst ` set d)"
  unfolding dict_len_def dict_keys_def
  using distinct_card [OF distinct_first_occurrences, of "map fst d"]
  by (simp add: set_first_occurrences)

lemma two_keys_len:
  assumes "map_of d k1 = Some v1" "map_of d k2 = Some v2" "k1 \<noteq> k2"
  shows "dict_len d \<noteq> 1"
proof -
  have "k1 \<in> fst ` set d" "k2 \<in> fst ` set d"
    using assms by (auto dest!: map_of_SomeD intro: rev_image_eqI)
  then have "{k1, k2} \<subseteq> fst ` set d" by simp
  then have "card {k1, k2} \<le> card (fst ` set d)"
    by (intro card_mono) auto
  with assms(3) show ?thesis by (simp add: dict_len_card)
qed

lemma py_or_falsy: "\<not> truthy a \<Longrightarrow> py_or a b = b"
  by (simp add: py_or_def)

subsection \<open>The aggregation descriptor\<close>

lemma resolve_single: "resolve_aggregation (JObj [(c, f)]) = Inr (JStr c, f)"
  by (simp add: resolve_aggregation_def dict_len_def dict_keys_def dict_get_def
      dict_get_default_def)

lemma resolve_pair:
  assumes "map_of d ''column'' = Some col" "map_of d ''function'' = Some f"
  shows "resolve_aggregation (JObj d) = Inr (col, f)"
  using two_keys_len [OF assms] assms
  by (simp add: resolve_aggregation_def dict_get_def dict_get_default_def)

lemma aggregate_with_cong:
  "dict_get_default t1 ''group_by'' (JList []) = dict_get_default t2 ''group_by'' (JList [])
   \<Longrightarrow> aggregate_with P t1 col df ag = aggregate_with P t2 col df ag"
  by (simp add: aggregate_with_def)

lemma aggregate_cong:
  "resolve_aggregation (dict_get_default t1 ''aggregation'' (JObj []))
     = resolve_aggregation (dict_get_default t2 ''aggregation'' (JObj []))
   \<Longrightarrow> dict_get_default t1 ''group_by'' (JList []) = dict_get_default t2 ''group_by'' (JList [])
   \<Longrightarrow> aggregate P t1 col df = aggregate P t2 col df"
  by (simp add: aggregate_def aggregate_with_cong [of t1 t2] cong: sum.case_cong)

lemma chart_call_transformation:
  "chart_call ((''data_transformation'', v) # p) df_agg agg_col = chart_call p df_agg agg_col"
  by (simp add: chart_call_def dict_get_cons)

text \<open>
  Claim C3. A descriptor with the single entry \<open>c: f\<close> and a descriptor with the entries
  \<^verbatim>\<open>'column': c\<close> and \<^verbatim>\<open>'function': f\<close> (in any order, with or without further entries)
  are both resolved to the column \<open>c\<close> and the function \<open>f\<close>, and two plans that differ
  only in which of the two descriptors they carry give the same result of
  \<^verbatim>\<open>gerar_grafico_plotly\<close> on every table.
\<close>

theorem aggregation_shapes_agree:
  assumes "map_of d ''column'' = Some (JStr c)" and "map_of d ''function'' = Some f"
  shows "resolve_aggregation (JObj [(c, f)]) = Inr (JStr c, f)
       \<and> resolve_aggregation (JObj d) = Inr (JStr c, f)
       \<and> gerar_grafico_plotly P
           (JObj ((''data_transformation'', JObj ((''aggregation'', JObj [(c, f)]) # t)) # p)) df
         = gerar_grafico_plotly P
           (JObj ((''data_transformation'', JObj ((''aggregation'', JObj d) # t)) # p)) df"
proof -
  have a: "resolve_aggregation (JObj [(c, f)]) = resolve_aggregation (JObj d)"
    by (simp add: resolve_single resolve_pair [OF assms])
  have "aggregate P ((''aggregation'', JObj [(c, f)]) # t) col x
      = aggregate P ((''aggregation'', JObj d) # t) col x" for col x
    by (rule aggregate_cong) (simp_all add: dict_get_default_cons a)
  then have "plot_plan P
               (JObj ((''data_transformation'', JObj ((''aggregation'', JObj [(c, f)]) # t)) # p)) df
           = plot_plan P
               (JObj ((''data_transformation'', JObj ((''aggregation'', JObj d) # t)) # p)) df"
    by (simp add: plot_plan_def dict_get_cons dict_get_default_cons chart_call_transformation
        Let_def cong: sum.case_cong if_cong)
  then show ?thesis
    by (simp add: gerar_grafico_plotly_def resolve_single resolve_pair [OF assms])
qed

theorem aggregation_shapes_agree_witness:
  "map_of [(''function'', JStr ''count''), (''column'', JStr ''ID_Cliente'')] ''column''
     = Some (JStr ''ID_Cliente'')
   \<and> map_of [(''function'', JStr ''count''), (''column'', JStr ''ID_Cliente'')] ''function''
     = Some (JStr ''count'')
   \<and> gerar_grafico_plotly demo_lib (demo_plan ''bar'' (JObj [(''ID_Cliente'', JStr ''count'')])) demo_frame
     = gerar_grafico_plotly demo_lib
         (demo_plan ''bar'' (JObj [(''function'', JStr ''count''), (''column'', JStr ''ID_Cliente'')]))
         demo_frame
   \<and> gerar_grafico_plotly demo_lib (demo_plan ''bar'' (JObj [(''ID_Cliente'', JStr ''count'')])) demo_frame
     \<noteq> None"
proof -
  have h1: "map_of [(''function'', JStr ''count''), (''column'', JStr ''ID_Cliente'')] ''column''
     = Some (JStr ''ID_Cliente'')" by simp
  have h2: "map_of [(''function'', JStr ''count''), (''column'', JStr ''ID_Cliente'')] ''function''
     = Some (JStr ''count'')" by simp
  have run: "gerar_grafico_plotly demo_lib (demo_plan ''bar'' (JObj [(''ID_Cliente'', JStr ''count'')]))
               demo_frame \<noteq> None"
    by code_simp
  from aggregation_shapes_agree [OF h1 h2, of demo_lib demo_transformation "demo_axes ''bar''" demo_frame] run
  show ?thesis by (simp add: demo_plan_def)
qed

subsection \<open>Filters\<close>

text \<open>
  Claim C10. When the \<^verbatim>\<open>'value'\<close> entry of a filter is the number 0, false, the empty
  string or the empty list, the comparison value is what the \<^verbatim>\<open>'values'\<close> entry holds, and
  null when there is no such entry. So an equality filter with the value 0 reaches the query
  with the content of \<^verbatim>\<open>'values'\<close>, not with 0.
\<close>

theorem falsy_value_uses_values:
  assumes "map_of f ''value'' = Some v" and "v \<in> {JNum 0, JBool False, JStr [], JList []}"
  shows "filter_value f = dict_get f ''values''
       \<and> (map_of f ''values'' = None \<longrightarrow> filter_value f = JNull)
       \<and> (map_of f ''column'' = Some (JStr c) \<and> filter_operator f = JStr ''==''
            \<longrightarrow> apply_filter P df (JObj f)
              = (case coerce_date_column P df c of
                   Inl e \<Rightarrow> Inl e
                 | Inr df1 \<Rightarrow> query P df1 c (JStr ''=='') (dict_get f ''values'')))"
proof -
  have "\<not> truthy (dict_get f ''value'')"
    using assms by (auto simp: dict_get_def dict_get_default_def)
  then have v: "filter_value f = dict_get f ''values''"
    by (simp add: filter_value_def py_or_falsy)
  moreover have "map_of f ''values'' = None \<longrightarrow> dict_get f ''values'' = JNull"
    by (simp add: dict_get_def dict_get_default_def)
  moreover have "map_of f ''column'' = Some (JStr c) \<and> filter_operator f = JStr ''==''
            \<longrightarrow> apply_filter P df (JObj f)
              = (case coerce_date_column P df c of
                   Inl e \<Rightarrow> Inl e
                 | Inr df1 \<Rightarrow> query P df1 c (JStr ''=='') (dict_get f ''values''))"
    by (simp add: apply_filter_def v filter_rows_def Let_def cong: sum.case_cong)
  ultimately show ?thesis by simp
qed

theorem falsy_value_uses_values_witness:
  "map_of [(''column'', JStr ''Valor''), (''operator'', JStr ''==''), (''value'', JNum 0)] ''value''
     = Some (JNum 0)
   \<and> JNum 0 \<in> {JNum 0, JBool False, JStr [], JList []}
   \<and> filter_value [(''column'', JStr ''Valor''), (''operator'', JStr ''==''), (''value'', JNum 0)]
     = JNull
   \<and> CInt 0 \<in> set (column_cells demo_frame ''Valor'')
   \<and> apply_filter demo_lib demo_frame
        (JObj [(''column'', JStr ''Valor''), (''operator'', JStr ''==''), (''value'', JNum 0)])
     = Inr (demo_frame\<lparr>rows := []\<rparr>)"
proof -
  have h1: "map_of [(''column'', JStr ''Valor''), (''operator'', JStr ''==''), (''value'', JNum 0)]
              ''value'' = Some (JNum 0)"
    by simp
  have h2: "JNum 0 \<in> {JNum 0, JBool False, JStr [], JList []}" by simp
  have q: "(case coerce_date_column demo_lib demo_frame ''Valor'' of
              Inl e \<Rightarrow> Inl e
            | Inr df1 \<Rightarrow> query demo_lib df1 ''Valor'' (JStr ''=='')
                (dict_get [(''column'', JStr ''Valor''), (''operator'', JStr ''==''),
                           (''value'', JNum 0)] ''values''))
           = Inr (demo_frame\<lparr>rows := []\<rparr>)"
    by code_simp
  have c: "CInt 0 \<in> set (column_cells demo_frame ''Valor'')" by code_simp
  have o: "filter_operator [(''column'', JStr ''Valor''), (''operator'', JStr ''==''),
                            (''value'', JNum 0)] = JStr ''==''"
    by code_simp
  from falsy_value_uses_values [OF h1 h2, of "''Valor''" demo_lib demo_frame] q c o
  show ?thesis by (simp add: dict_get_def dict_get_default_def)
qed

lemma filter_operator_alias:
  assumes "map_of f ''operator'' = None" and "map_of f ''condition'' = None"
  shows "truthy op \<Longrightarrow> filter_operator ((''operator'', op) # f) = op"
    and "truthy op \<Longrightarrow> filter_operator ((''condition'', op) # f) = op"
    and "\<not> truthy op \<Longrightarrow> \<not> truthy (filter_operator ((''operator'', op) # f))"
    and "\<not> truthy op \<Longrightarrow> \<not> truthy (filter_operator ((''condition'', op) # f))"
  using assms by (simp_all add: filter_operator_def py_or_def dict_get_def dict_get_default_def)

lemma filter_operator_absent:
  assumes "map_of f ''operator'' = None" and "map_of f ''condition'' = None"
  shows "filter_operator f = JNull"
  using assms by (simp add: filter_operator_def py_or_def dict_get_def dict_get_default_def)

lemma filter_value_cons:
  "k \<noteq> ''value'' \<Longrightarrow> k \<noteq> ''values'' \<Longrightarrow> filter_value ((k, v) # f) = filter_value f"
  by (simp add: filter_value_def dict_get_cons)

lemma apply_filter_alias:
  assumes "map_of f ''operator'' = None" and "map_of f ''condition'' = None"
  shows "apply_filter P df (JObj ((''operator'', op) # f))
       = apply_filter P df (JObj ((''condition'', op) # f))"
proof (cases "truthy op")
  case True
  then show ?thesis
    by (simp add: apply_filter_def filter_operator_alias [OF assms] filter_value_cons Let_def
        cong: option.case_cong)
next
  case False
  then show ?thesis
    by (simp add: apply_filter_def filter_operator_alias [OF assms] filter_value_cons Let_def
        split: option.splits)
qed

lemma apply_filter_skip:
  assumes "map_of g ''column'' = Some c" and "map_of g ''operator'' = None"
    and "map_of g ''condition'' = None"
  shows "apply_filter P df (JObj g) = Inr df"
  using assms by (simp add: apply_filter_def filter_operator_absent)

lemma gerar_filters_cong:
  assumes "\<And>x. apply_filters P x fs1 = apply_filters P x fs2"
  shows "gerar_grafico_plotly P (JObj ((''data_transformation'', JObj ((''filters'', JList fs1) # t)) # p)) df
       = gerar_grafico_plotly P (JObj ((''data_transformation'', JObj ((''filters'', JList fs2) # t)) # p)) df"
proof -
  have a: "aggregate P ((''filters'', v) # t) col x = aggregate P t col x" for v col x
    by (simp add: aggregate_def aggregate_with_def dict_get_default_cons cong: sum.case_cong)
  have "plot_plan P (JObj ((''data_transformation'', JObj ((''filters'', JList fs1) # t)) # p)) df
      = plot_plan P (JObj ((''data_transformation'', JObj ((''filters'', JList fs2) # t)) # p)) df"
    by (simp add: plot_plan_def dict_get_cons dict_get_default_cons chart_call_transformation
        Let_def py_iter_def assms a cong: sum.case_cong if_cong)
  then show ?thesis by (simp add: gerar_grafico_plotly_def)
qed

text \<open>
  A filter entry has a column: line 196 reads it before anything else, and an entry without
  one raises there, so that the plan gives no chart.
\<close>

lemma apply_filter_no_column: "map_of g ''column'' = None \<Longrightarrow> apply_filter P df (JObj g) = Inl KeyError"
  by (simp add: apply_filter_def)

text \<open>
  Claim C5. A filter that names its operator under \<^verbatim>\<open>'operator'\<close> and the same filter
  with the operator under \<^verbatim>\<open>'condition'\<close> give the same outcome on every table. A filter
  entry with a column but with neither field is skipped: the remaining filters are applied to
  the unchanged table, and the plan gives the same result as the plan without that entry.
\<close>

theorem operator_alias_and_skip:
  "(map_of f ''operator'' = None \<and> map_of f ''condition'' = None \<longrightarrow>
      apply_filter P df (JObj ((''operator'', op) # f))
        = apply_filter P df (JObj ((''condition'', op) # f)))
   \<and> (map_of g ''column'' = Some c \<and> map_of g ''operator'' = None \<and> map_of g ''condition'' = None \<longrightarrow>
        apply_filters P df (JObj g # fs) = apply_filters P df fs
        \<and> gerar_grafico_plotly P
            (JObj ((''data_transformation'', JObj ((''filters'', JList (JObj g # fs)) # t)) # p)) df
          = gerar_grafico_plotly P
            (JObj ((''data_transformation'', JObj ((''filters'', JList fs) # t)) # p)) df)"
proof (intro conjI impI)
  assume "map_of f ''operator'' = None \<and> map_of f ''condition'' = None"
  then show "apply_filter P df (JObj ((''operator'', op) # f))
        = apply_filter P df (JObj ((''condition'', op) # f))"
    by (simp add: apply_filter_alias)
next
  assume h: "map_of g ''column'' = Some c \<and> map_of g ''operator'' = None \<and> map_of g ''condition'' = None"
  then have s: "apply_filters P x (JObj g # fs) = apply_filters P x fs" for x
    by (simp add: apply_filter_skip)
  show "apply_filters P df (JObj g # fs) = apply_filters P df fs" by (rule s)
  show "gerar_grafico_plotly P
            (JObj ((''data_transformation'', JObj ((''filters'', JList (JObj g # fs)) # t)) # p)) df
          = gerar_grafico_plotly P
            (JObj ((''data_transformation'', JObj ((''filters'', JList fs) # t)) # p)) df"
    by (rule gerar_filters_cong) (rule s)
qed

theorem operator_alias_and_skip_witness:
  "map_of [(''column'', JStr ''ID_Cliente''), (''value'', JNum 2)] ''operator'' = None
   \<and> map_of [(''column'', JStr ''ID_Cliente''), (''value'', JNum 2)] ''condition'' = None
   \<and> apply_filter demo_lib demo_frame
        (JObj ((''operator'', JStr ''=='') # [(''column'', JStr ''ID_Cliente''), (''value'', JNum 2)]))
       = Inr (demo_frame\<lparr>rows := [[CInt 2, CDate 288, CInt 20, CStr ''B'']]\<rparr>)
   \<and> apply_filter demo_lib demo_frame
        (JObj ((''condition'', JStr ''=='') # [(''column'', JStr ''ID_Cliente''), (''value'', JNum 2)]))
       = Inr (demo_frame\<lparr>rows := [[CInt 2, CDate 288, CInt 20, CStr ''B'']]\<rparr>)
   \<and> map_of [(''column'', JStr ''Status''), (''value'', JStr ''A'')] ''column'' = Some (JStr ''Status'')
   \<and> map_of [(''column'', JStr ''Status''), (''value'', JStr ''A'')] ''operator'' = None
   \<and> map_of [(''column'', JStr ''Status''), (''value'', JStr ''A'')] ''condition'' = None
   \<and> apply_filters demo_lib demo_frame
        [JObj [(''column'', JStr ''Status''), (''value'', JStr ''A'')],
         JObj [(''operator'', JStr ''==''), (''column'', JStr ''ID_Cliente''), (''value'', JNum 2)]]
       = Inr (demo_frame\<lparr>rows := [[CInt 2, CDate 288, CInt 20, CStr ''B'']]\<rparr>)"
proof -
  let ?f = "[(''column'', JStr ''ID_Cliente''), (''value'', JNum 2)]"
  let ?g = "[(''column'', JStr ''Status''), (''value'', JStr ''A'')]"
  let ?fs = "[JObj [(''operator'', JStr ''==''), (''column'', JStr ''ID_Cliente''), (''value'', JNum 2)]]"
  have r: "apply_filter demo_lib demo_frame (JObj ((''operator'', JStr ''=='') # ?f))
       = Inr (demo_frame\<lparr>rows := [[CInt 2, CDate 288, CInt 20, CStr ''B'']]\<rparr>)"
    by code_simp
  have rs: "apply_filters demo_lib demo_frame ?fs
       = Inr (demo_frame\<lparr>rows := [[CInt 2, CDate 288, CInt 20, CStr ''B'']]\<rparr>)"
    by code_simp
  from operator_alias_and_skip [of ?f demo_lib demo_frame "JStr ''==''" ?g "JStr ''Status''" ?fs] r rs
  show ?thesis by simp
qed

subsection \<open>Empty tables and unsupported chart types\<close>

text \<open>
  Claim C6. When the filters of a plan leave a table without rows, or when the grouped and
  aggregated table has no rows, \<^verbatim>\<open>gerar_grafico_plotly\<close> returns \<open>None\<close>.
\<close>

theorem empty_table_no_chart:
  assumes "dict_get p ''data_transformation'' = JObj t"
    and "py_iter (dict_get_default t ''filters'' (JList [])) = Inr fs"
    and "apply_filters P df fs = Inr d"
    and "rows d = [] \<or> (\<exists>da c. aggregate P t (dict_get p ''color'') d = Inr (da, c) \<and> rows da = [])"
  shows "gerar_grafico_plotly P (JObj p) df = None"
proof -
  have "plot_plan P (JObj p) df = Inr None"
    using assms by (auto simp: plot_plan_def Let_def df_empty_def)
  then show ?thesis by (simp add: gerar_grafico_plotly_def)
qed

theorem empty_table_no_chart_witness:
  "dict_get [(''data_transformation'',
               JObj [(''filters'', JList [JObj [(''column'', JStr ''Valor''), (''operator'', JStr ''==''),
                                               (''value'', JNum 0)]])]),
             (''chart_type'', JStr ''bar''), (''x_axis'', JStr ''Status'')] ''data_transformation''
     = JObj [(''filters'', JList [JObj [(''column'', JStr ''Valor''), (''operator'', JStr ''==''),
                                       (''value'', JNum 0)]])]
   \<and> apply_filters demo_lib demo_frame
        [JObj [(''column'', JStr ''Valor''), (''operator'', JStr ''==''), (''value'', JNum 0)]]
       = Inr (demo_frame\<lparr>rows := []\<rparr>)
   \<and> gerar_grafico_plotly demo_lib
        (JObj [(''data_transformation'',
                 JObj [(''filters'', JList [JObj [(''column'', JStr ''Valor''),
                                                 (''operator'', JStr ''==''), (''value'', JNum 0)]])]),
               (''chart_type'', JStr ''bar''), (''x_axis'', JStr ''Status'')]) demo_frame = None
   \<and> aggregate demo_lib [(''group_by'', JList [JStr ''K'']), (''aggregation'', JObj [(''V'', JStr ''sum'')])]
        JNull null_frame
       = Inr (\<lparr>columns = [''K'', ''V''], rows = []\<rparr>, JStr ''V'')
   \<and> gerar_grafico_plotly demo_lib
        (JObj [(''data_transformation'',
                 JObj [(''group_by'', JList [JStr ''K'']), (''aggregation'', JObj [(''V'', JStr ''sum'')])]),
               (''chart_type'', JStr ''bar''), (''x_axis'', JStr ''K'')]) null_frame = None"
proof -
  let ?f = "JObj [(''column'', JStr ''Valor''), (''operator'', JStr ''==''), (''value'', JNum 0)]"
  let ?t1 = "[(''filters'', JList [?f])]"
  let ?p1 = "[(''data_transformation'', JObj ?t1), (''chart_type'', JStr ''bar''),
              (''x_axis'', JStr ''Status'')]"
  let ?t2 = "[(''group_by'', JList [JStr ''K'']), (''aggregation'', JObj [(''V'', JStr ''sum'')])]"
  let ?p2 = "[(''data_transformation'', JObj ?t2), (''chart_type'', JStr ''bar''),
              (''x_axis'', JStr ''K'')]"
  have a1: "dict_get ?p1 ''data_transformation'' = JObj ?t1"
    by (simp add: dict_get_def dict_get_default_def)
  have b1: "py_iter (dict_get_default ?t1 ''filters'' (JList [])) = Inr [?f]"
    by (simp add: py_iter_def dict_get_default_def)
  have c1: "apply_filters demo_lib demo_frame [?f] = Inr (demo_frame\<lparr>rows := []\<rparr>)"
    by code_simp
  have d1: "rows (demo_frame\<lparr>rows := []\<rparr>) = []
     \<or> (\<exists>da c. aggregate demo_lib ?t1 (dict_get ?p1 ''color'') (demo_frame\<lparr>rows := []\<rparr>) = Inr (da, c)
               \<and> rows da = [])"
    by simp
  have a2: "dict_get ?p2 ''data_transformation'' = JObj ?t2"
    by (simp add: dict_get_def dict_get_default_def)
  have b2: "py_iter (dict_get_default ?t2 ''filters'' (JList [])) = Inr []"
    by (simp add: py_iter_def dict_get_default_def)
  have c2: "apply_filters demo_lib null_frame [] = Inr null_frame" by simp
  have g2: "aggregate demo_lib ?t2 JNull null_frame
       = Inr (\<lparr>columns = [''K'', ''V''], rows = []\<rparr>, JStr ''V'')"
    by code_simp
  have k2: "dict_get ?p2 ''color'' = JNull" by (simp add: dict_get_def dict_get_default_def)
  have d2: "rows null_frame = []
     \<or> (\<exists>da c. aggregate demo_lib ?t2 (dict_get ?p2 ''color'') null_frame = Inr (da, c) \<and> rows da = [])"
    using g2 k2 by simp
  from empty_table_no_chart [OF a1 b1 c1 d1] empty_table_no_chart [OF a2 b2 c2 d2] a1 c1 g2
  show ?thesis by simp
qed

lemma chart_call_unsupported:
  "dict_get p ''chart_type'' \<notin> {JStr ''bar'', JStr ''pie'', JStr ''donut''}
   \<Longrightarrow> chart_call p df_agg agg_col = Inr None"
  by (simp add: chart_call_def Let_def)

lemma plot_plan_unsupported:
  assumes "dict_get p ''chart_type'' \<notin> {JStr ''bar'', JStr ''pie'', JStr ''donut''}"
  shows "plot_plan P (JObj p) df \<noteq> Inr (Some call)"
  by (auto simp: plot_plan_def Let_def chart_call_unsupported [OF assms]
      split: sum.splits json.splits prod.splits if_splits)

lemma gerar_unsupported:
  assumes "dict_get p ''chart_type'' \<notin> {JStr ''bar'', JStr ''pie'', JStr ''donut''}"
  shows "gerar_grafico_plotly P (JObj p) df = None"
  using plot_plan_unsupported [OF assms, of P df]
  by (auto simp: gerar_grafico_plotly_def split: sum.splits option.splits)

lemma charts_json_append:
  "charts_json P df (ps @ qs) = charts_json P df ps @ charts_json P df qs"
  by (simp add: charts_json_def map_filter_def)

lemma charts_json_Cons:
  "charts_json P df (plan # qs)
     = (case gerar_grafico_plotly P plan df of None \<Rightarrow> [] | Some spec \<Rightarrow> [spec]) @ charts_json P df qs"
  by (simp add: charts_json_def map_filter_def split: option.splits)

text \<open>
  Claim C7. A plan whose chart type is not \<^verbatim>\<open>bar\<close>, \<^verbatim>\<open>pie\<close> or \<^verbatim>\<open>donut\<close> gives
  \<open>None\<close>, as a value and not as an exception. In a batch such a plan contributes nothing and
  the charts of the plans before and after it are kept in their order; this is the list of
  charts that the route \<^verbatim>\<open>/ask\<close> returns. In general every plan of a batch contributes
  its chart, or nothing when it gives \<open>None\<close>, at its place in the order.
\<close>

theorem unsupported_chart_type_dropped:
  assumes "dict_get p ''chart_type'' \<notin> {JStr ''bar'', JStr ''pie'', JStr ''donut''}"
  shows "gerar_grafico_plotly P (JObj p) df = None
       \<and> charts_json P df (ps @ JObj p # qs) = charts_json P df ps @ charts_json P df qs
       \<and> (truthy (dict_get d ''question'') \<and> extrair_json P text = Some (JObj r) \<and> r \<noteq> []
            \<and> map_of r ''chart_plans'' = Some (JList (ps @ JObj p # qs))
          \<longrightarrow> fst (ask_gemini P (Some df) s (JObj d) (Inr text))
                = Inr (Answer (dict_get r ''answer'') (dict_get r ''insight_text'')
                         (charts_json P df ps @ charts_json P df qs)))
       \<and> (\<forall>plan. charts_json P df (ps @ plan # qs)
                   = charts_json P df ps
                     @ (case gerar_grafico_plotly P plan df of None \<Rightarrow> [] | Some spec \<Rightarrow> [spec])
                     @ charts_json P df qs)"
proof -
  have g: "gerar_grafico_plotly P (JObj p) df = None"
    by (rule gerar_unsupported [OF assms])
  have c: "charts_json P df (ps @ JObj p # qs) = charts_json P df ps @ charts_json P df qs"
    by (simp add: charts_json_append charts_json_Cons g)
  have a: "truthy (dict_get d ''question'') \<and> extrair_json P text = Some (JObj r) \<and> r \<noteq> []
            \<and> map_of r ''chart_plans'' = Some (JList (ps @ JObj p # qs))
          \<longrightarrow> fst (ask_gemini P (Some df) s (JObj d) (Inr text))
                = Inr (Answer (dict_get r ''answer'') (dict_get r ''insight_text'')
                         (charts_json P df ps @ charts_json P df qs))"
    by (auto simp: c ask_gemini_def Let_def dict_get_default_def py_iter_def)
  have b: "charts_json P df (ps @ plan # qs)
             = charts_json P df ps
               @ (case gerar_grafico_plotly P plan df of None \<Rightarrow> [] | Some spec \<Rightarrow> [spec])
               @ charts_json P df qs" for plan
    by (simp add: charts_json_append charts_json_Cons)
  from g c a b show ?thesis by blast
qed

lemma plan_value_demo: "plan_value ct = demo_plan ct count_clients"
  by (simp add: plan_value_def demo_plan_def count_clients_def demo_transformation_def
      demo_axes_def Ano_Mes_def)

theorem unsupported_chart_type_dropped_witness:
  "dict_get (demo_axes ''scatter3d'') ''chart_type'' \<notin> {JStr ''bar'', JStr ''pie'', JStr ''donut''}
   \<and> gerar_grafico_plotly demo_lib (JObj (demo_axes ''scatter3d'')) demo_frame = None
   \<and> truthy (dict_get [(''question'', JStr ''how many?'')] ''question'')
   \<and> length (charts_json demo_lib demo_frame [plan_value ''bar'']) = 1
   \<and> length (charts_json demo_lib demo_frame [plan_value ''pie'']) = 1
   \<and> fst (ask_gemini demo_lib (Some demo_frame) None (JObj [(''question'', JStr ''how many?'')])
            (Inr (''Here: '' @ plans_text)))
       = Inr (Answer (JStr ''ok'') JNull
                (charts_json demo_lib demo_frame [plan_value ''bar'']
                   @ charts_json demo_lib demo_frame [plan_value ''pie'']))"
proof -
  let ?p = "(''data_transformation'',
              JObj [(''aggregation'', JObj [(''ID_Cliente'', JStr ''count'')]),
                    (''group_by'', JList [JStr (''Ano-M'' @ [CHR 0xEA] @ ''s'')])])
            # demo_axes ''scatter3d''"
  let ?r = "[(''answer'', JStr ''ok''),
             (''chart_plans'', JList [plan_value ''bar'', plan_value ''scatter3d'', plan_value ''pie''])]"
  have h0: "dict_get (demo_axes ''scatter3d'') ''chart_type''
              \<notin> {JStr ''bar'', JStr ''pie'', JStr ''donut''}"
    by (simp add: demo_axes_def dict_get_def dict_get_default_def)
  have h: "dict_get ?p ''chart_type'' \<notin> {JStr ''bar'', JStr ''pie'', JStr ''donut''}"
    by (simp add: demo_axes_def dict_get_def dict_get_default_def)
  have q: "truthy (dict_get [(''question'', JStr ''how many?'')] ''question'')"
    by (simp add: dict_get_def dict_get_default_def)
  have e: "extrair_json demo_lib (''Here: '' @ plans_text) = Some (JObj ?r)"
    by code_simp
  have m: "map_of ?r ''chart_plans'' = Some (JList ([plan_value ''bar''] @ JObj ?p # [plan_value ''pie'']))"
    by (simp add: plan_value_def demo_axes_def)
  have l1: "length (charts_json demo_lib demo_frame [plan_value ''bar'']) = 1" by code_simp
  have l2: "length (charts_json demo_lib demo_frame [plan_value ''pie'']) = 1" by code_simp
  from unsupported_chart_type_dropped [OF h0, of demo_lib demo_frame]
       unsupported_chart_type_dropped [OF h, of demo_lib demo_frame
         "[plan_value ''bar'']" "[plan_value ''pie'']" "[(''question'', JStr ''how many?'')]"
         "''Here: '' @ plans_text" ?r None] h0 q e m l1 l2
  show ?thesis by (simp add: dict_get_def dict_get_default_def)
qed

subsection \<open>The conversation\<close>

lemma py_find_minus: "py_find c s = - 1 \<longleftrightarrow> c \<notin> set s"
  by (simp add: py_find_def)

lemma py_rfind_zero: "py_rfind c s + 1 = 0 \<longleftrightarrow> c \<notin> set s"
  by (simp add: py_rfind_def)

lemma extrair_json_None_iff:
  "extrair_json P text = None \<longleftrightarrow>
     CHR ''{'' \<notin> set text \<or> CHR ''}'' \<notin> set text \<or> isl (json_loads P (json_span text))"
  by (auto simp: extrair_json_def Let_def py_find_minus py_rfind_zero json_span_def
      split: sum.splits)

text \<open>
  Claim C8. When the text of the model has no opening brace, no closing brace, or a span
  between them that the parser rejects, the route answers with the model-response error (a
  response, not an exception), and the history of the session is what it was before the
  request.
\<close>

theorem no_json_keeps_history:
  assumes "truthy (dict_get d ''question'')"
    and "CHR ''{'' \<notin> set text \<or> CHR ''}'' \<notin> set text \<or> isl (json_loads P (json_span text))"
  shows "ask_gemini P (Some df) s (JObj d) (Inr text)
           = (Inr (Message 500 Model_response_error), Some (history s))
       \<and> history (snd (ask_gemini P (Some df) s (JObj d) (Inr text))) = history s
       \<and> (s \<noteq> None \<longrightarrow> snd (ask_gemini P (Some df) s (JObj d) (Inr text)) = s)"
proof -
  have "extrair_json P text = None"
    using assms(2) by (simp add: extrair_json_None_iff)
  then have "ask_gemini P (Some df) s (JObj d) (Inr text)
           = (Inr (Message 500 Model_response_error), Some (history s))"
    using assms(1) by (simp add: ask_gemini_def Let_def)
  then show ?thesis by (auto simp: history_def)
qed

theorem no_json_keeps_history_witness:
  "truthy (dict_get [(''question'', JStr ''how many?'')] ''question'')
   \<and> CHR ''{'' \<notin> set ''I cannot answer }''
   \<and> isl (json_loads demo_lib (json_span ''{ not json }''))
   \<and> ask_gemini demo_lib (Some demo_frame) (Some [(JStr ''a'', JStr ''b'')])
        (JObj [(''question'', JStr ''how many?'')]) (Inr ''I cannot answer }'')
       = (Inr (Message 500 Model_response_error), Some [(JStr ''a'', JStr ''b'')])
   \<and> ask_gemini demo_lib (Some demo_frame) (Some [(JStr ''a'', JStr ''b'')])
        (JObj [(''question'', JStr ''how many?'')]) (Inr ''{ not json }'')
       = (Inr (Message 500 Model_response_error), Some [(JStr ''a'', JStr ''b'')])"
proof -
  have q: "truthy (dict_get [(''question'', JStr ''how many?'')] ''question'')"
    by (simp add: dict_get_def dict_get_default_def)
  have t1: "CHR ''{'' \<notin> set ''I cannot answer }'' \<or> CHR ''}'' \<notin> set ''I cannot answer }''
        \<or> isl (json_loads demo_lib (json_span ''I cannot answer }''))"
    by simp
  have t2: "CHR ''{'' \<notin> set ''{ not json }'' \<or> CHR ''}'' \<notin> set ''{ not json }''
        \<or> isl (json_loads demo_lib (json_span ''{ not json }''))"
    by code_simp
  have t3: "isl (json_loads demo_lib (json_span ''{ not json }''))" by code_simp
  from no_json_keeps_history [OF q t1, of demo_frame "Some [(JStr ''a'', JStr ''b'')]"]
       no_json_keeps_history [OF q t2, of demo_frame "Some [(JStr ''a'', JStr ''b'')]"] q t3
  show ?thesis by (simp add: history_def)
qed

lemma ask_response_session: "fst (ask P s rq) = fst (ask P None rq)"
  by (simp add: ask_def ask_gemini_def Let_def
      split: option.splits json.splits sum.splits)

lemma answered_shape:
  assumes "answered P rq"
  obtains df d body_text r plans where
    "rq_frame rq = Some df" "rq_body rq = JObj d" "truthy (dict_get d ''question'')"
    "rq_reply rq = Inr body_text" "extrair_json P body_text = Some (JObj r)" "r \<noteq> []"
    "py_iter (dict_get_default r ''chart_plans'' (JList [])) = Inr plans"
  using assms
  by (auto simp: answered_def ask_def ask_gemini_def Let_def
      split: option.splits json.splits sum.splits if_splits)

lemma ask_answered:
  assumes "answered P rq"
  shows "snd (ask P s rq) = Some (update_history (history s) (turn_of P rq))"
proof -
  from assms obtain df d body_text r plans where
    "rq_frame rq = Some df" "rq_body rq = JObj d" "truthy (dict_get d ''question'')"
    "rq_reply rq = Inr body_text" "extrair_json P body_text = Some (JObj r)" "r \<noteq> []"
    "py_iter (dict_get_default r ''chart_plans'' (JList [])) = Inr plans"
    by (rule answered_shape)
  then show ?thesis
    by (simp add: ask_def ask_gemini_def turn_of_def Let_def)
qed

lemma update_history_last:
  assumes "length h \<le> 3"
  shows "update_history h t = drop (length (h @ [t]) - 3) (h @ [t])"
proof (cases "length h = 3")
  case True
  then have "length (h @ [t]) - 3 = Suc 0" by simp
  then show ?thesis using True by (cases h) (simp_all add: update_history_def Let_def drop_Suc)
next
  case False
  with assms show ?thesis by (simp add: update_history_def Let_def)
qed

lemma length_update_history: "length h \<le> 3 \<Longrightarrow> length (update_history h t) \<le> 3"
  by (auto simp: update_history_def Let_def)

lemma drop_drop_append:
  "drop (length (drop (length xs - n) xs @ ys) - n) (drop (length xs - n) xs @ ys)
     = drop (length (xs @ ys) - n) (xs @ ys)"
  by (cases "length xs \<le> n") (auto simp: add.commute)

lemma conversation_history:
  "list_all (answered P) rqs \<Longrightarrow> length (history s) \<le> 3 \<Longrightarrow>
     history (conversation P s rqs)
       = drop (length (history s @ map (turn_of P) rqs) - 3) (history s @ map (turn_of P) rqs)"
proof (induction rqs arbitrary: s)
  case Nil
  then show ?case by simp
next
  case (Cons rq rqs)
  let ?s1 = "snd (ask P s rq)"
  have s1: "history ?s1 = update_history (history s) (turn_of P rq)"
    using Cons.prems(1) by (simp add: ask_answered history_def)
  then have len: "length (history ?s1) \<le> 3"
    using Cons.prems(2) by (simp add: length_update_history)
  have "history (conversation P s (rq # rqs)) = history (conversation P ?s1 rqs)" by simp
  also have "\<dots> = drop (length (history ?s1 @ map (turn_of P) rqs) - 3)
                      (history ?s1 @ map (turn_of P) rqs)"
    using Cons.prems(1) len by (intro Cons.IH) simp_all
  also have "\<dots> = drop (length ((history s @ [turn_of P rq]) @ map (turn_of P) rqs) - 3)
                      ((history s @ [turn_of P rq]) @ map (turn_of P) rqs)"
    unfolding s1 update_history_last [OF Cons.prems(2)] by (rule drop_drop_append)
  finally show ?case by simp
qed

text \<open>
  Claim C9. Starting from an empty history, after a sequence of answered requests the history
  holds the last three turns in order (all of them when there were at most three); each
  answered request appends its turn and drops the oldest one when that makes more than three.
\<close>

theorem history_keeps_last_three:
  assumes "list_all (answered P) rqs" and "history s = []"
  shows "history (conversation P s rqs) = drop (length rqs - 3) (map (turn_of P) rqs)
       \<and> (3 < length rqs \<longrightarrow> length (history (conversation P s rqs)) = 3)
       \<and> (\<forall>rq \<in> set rqs. \<forall>s1.
             history (snd (ask P s1 rq))
               = (let h1 = history s1 @ [turn_of P rq] in if length h1 > 3 then tl h1 else h1))"
proof -
  have a: "history (conversation P s rqs) = drop (length rqs - 3) (map (turn_of P) rqs)"
    using conversation_history [OF assms(1), of s] assms(2) by simp
  have "\<forall>rq \<in> set rqs. \<forall>s1.
             history (snd (ask P s1 rq))
               = (let h1 = history s1 @ [turn_of P rq] in if length h1 > 3 then tl h1 else h1)"
    using assms(1) by (auto simp: list_all_iff ask_answered history_def update_history_def Let_def)
  with a show ?thesis by auto
qed

theorem history_keeps_last_three_witness:
  "list_all (answered demo_lib)
     [demo_request ''q1'', demo_request ''q2'', demo_request ''q3'', demo_request ''q4'']
   \<and> history None = []
   \<and> history (conversation demo_lib None
        [demo_request ''q1'', demo_request ''q2'', demo_request ''q3'', demo_request ''q4''])
     = [(JStr ''q2'', JStr ''ok''), (JStr ''q3'', JStr ''ok''), (JStr ''q4'', JStr ''ok'')]"
proof -
  have a: "list_all (answered demo_lib)
     [demo_request ''q1'', demo_request ''q2'', demo_request ''q3'', demo_request ''q4'']"
    by code_simp
  have h: "history None = []" by (simp add: history_def)
  have t: "drop (length [demo_request ''q1'', demo_request ''q2'', demo_request ''q3'', demo_request ''q4''] - 3)
      (map (turn_of demo_lib) [demo_request ''q1'', demo_request ''q2'', demo_request ''q3'', demo_request ''q4''])
     = [(JStr ''q2'', JStr ''ok''), (JStr ''q3'', JStr ''ok''), (JStr ''q4'', JStr ''ok'')]"
    by code_simp
  from history_keeps_last_three [OF a h] a h t show ?thesis by simp
qed

subsection \<open>The range and membership filters\<close>

lemma select_rows_map:
  "select_rows df (map f (rows df)) = df\<lparr>rows := filter f (rows df)\<rparr>"
proof -
  have "map fst (filter snd (zip xs (map f xs))) = filter f xs" for xs :: "cell list list"
    by (induction xs) auto
  then show ?thesis by (simp add: select_rows_def)
qed

lemma select_rows_column:
  "select_rows df (map f (column_cells df c))
     = df\<lparr>rows := filter (\<lambda>r. f (cell_at (columns df) r c)) (rows df)\<rparr>"
  using select_rows_map [of df "\<lambda>r. f (cell_at (columns df) r c)"]
  by (simp add: column_cells_def comp_def)

lemma in_range_timestamps:
  "in_range (Some lo) (Some hi) c = (case c of CDate d \<Rightarrow> lo \<le> d \<and> d \<le> hi | _ \<Rightarrow> False)"
  by (simp add: in_range_def split: cell.splits)

text \<open>
  Claim C4. Take a filter on a column \<open>c\<close> of the table, as it stands after the date
  coercion of line 205. With the operator \<^verbatim>\<open>between\<close>, a value of two elements that
  \<^verbatim>\<open>pd.to_datetime\<close> reads as the timestamps \<open>lo\<close> and \<open>hi\<close>, and \<open>c\<close> a datetime
  column, the filter keeps exactly the rows whose cell is a timestamp \<open>d\<close> with
  \<open>lo \<le> d \<le> hi\<close>, both ends included. With the operator \<^verbatim>\<open>in\<close> and a list as value it
  keeps exactly the rows whose cell equals some element of the list. Operator and value are
  the ones resolved from the two spellings of each field.
\<close>

theorem between_and_in_filters:
  assumes "map_of f ''column'' = Some (JStr c)"
    and "coerce_date_column P df c = Inr df1"
    and "c \<in> set (columns df1)"
  shows "(filter_operator f = JStr ''between'' \<and> filter_value f = JList [a, b]
            \<and> to_datetime P a = Inr (Some lo) \<and> to_datetime P b = Inr (Some hi)
            \<and> is_datetime_column df1 c
          \<longrightarrow> apply_filter P df (JObj f)
                = Inr (df1\<lparr>rows := filter (\<lambda>r. case cell_at (columns df1) r c of
                                                    CDate d \<Rightarrow> lo \<le> d \<and> d \<le> hi
                                                  | _ \<Rightarrow> False) (rows df1)\<rparr>))
       \<and> (filter_operator f = JStr ''in'' \<and> filter_value f = JList vs
          \<longrightarrow> apply_filter P df (JObj f)
                = Inr (df1\<lparr>rows := filter (\<lambda>r. \<exists>v \<in> set vs. elem_eq P (cell_at (columns df1) r c) v)
                                       (rows df1)\<rparr>))"
proof (intro conjI impI)
  assume h: "filter_operator f = JStr ''between'' \<and> filter_value f = JList [a, b]
            \<and> to_datetime P a = Inr (Some lo) \<and> to_datetime P b = Inr (Some hi)
            \<and> is_datetime_column df1 c"
  have "filter_rows P df1 c (JStr ''between'') (JList [a, b])
          = Inr (select_rows df1 (map (in_range (Some lo) (Some hi)) (column_cells df1 c)))"
    using h assms(3) by (simp add: filter_rows_def series_between_def)
  then show "apply_filter P df (JObj f)
                = Inr (df1\<lparr>rows := filter (\<lambda>r. case cell_at (columns df1) r c of
                                                    CDate d \<Rightarrow> lo \<le> d \<and> d \<le> hi
                                                  | _ \<Rightarrow> False) (rows df1)\<rparr>)"
    using h assms(1,2)
    by (simp add: apply_filter_def Let_def select_rows_column in_range_timestamps)
next
  assume h: "filter_operator f = JStr ''in'' \<and> filter_value f = JList vs"
  have "filter_rows P df1 c (JStr ''in'') (JList vs)
          = Inr (select_rows df1 (map (\<lambda>x. list_ex (elem_eq P x) vs) (column_cells df1 c)))"
    using assms(3) by (simp add: filter_rows_def series_isin_def)
  then show "apply_filter P df (JObj f)
                = Inr (df1\<lparr>rows := filter (\<lambda>r. \<exists>v \<in> set vs. elem_eq P (cell_at (columns df1) r c) v)
                                       (rows df1)\<rparr>)"
    using h assms(1,2)
    by (simp add: apply_filter_def Let_def select_rows_column list_ex_iff)
qed

theorem between_and_in_filters_witness:
  "map_of [(''column'', JStr ''Data_Movimento_mov''), (''operator'', JStr ''between''),
           (''value'', JList [JNum 288, JNum 289])] ''column'' = Some (JStr ''Data_Movimento_mov'')
   \<and> coerce_date_column demo_lib demo_frame ''Data_Movimento_mov'' = Inr demo_frame
   \<and> ''Data_Movimento_mov'' \<in> set (columns demo_frame)
   \<and> filter_operator [(''column'', JStr ''Data_Movimento_mov''), (''operator'', JStr ''between''),
                       (''value'', JList [JNum 288, JNum 289])] = JStr ''between''
   \<and> filter_value [(''column'', JStr ''Data_Movimento_mov''), (''operator'', JStr ''between''),
                    (''value'', JList [JNum 288, JNum 289])] = JList [JNum 288, JNum 289]
   \<and> to_datetime demo_lib (JNum 288) = Inr (Some 288)
   \<and> to_datetime demo_lib (JNum 289) = Inr (Some 289)
   \<and> is_datetime_column demo_frame ''Data_Movimento_mov''
   \<and> apply_filter demo_lib demo_frame
        (JObj [(''column'', JStr ''Data_Movimento_mov''), (''operator'', JStr ''between''),
               (''value'', JList [JNum 288, JNum 289])])
       = Inr (demo_frame\<lparr>rows := [[CInt 2, CDate 288, CInt 20, CStr ''B''],
                                    [CInt 3, CDate 289, CInt 0, CStr ''A''],
                                    [CInt 4, CDate 288, CInt 70, CStr ''C'']]\<rparr>)
   \<and> map_of [(''column'', JStr ''Status''), (''condition'', JStr ''in''),
             (''values'', JList [JStr ''A'', JStr ''C''])] ''column'' = Some (JStr ''Status'')
   \<and> coerce_date_column demo_lib demo_frame ''Status'' = Inr demo_frame
   \<and> ''Status'' \<in> set (columns demo_frame)
   \<and> filter_operator [(''column'', JStr ''Status''), (''condition'', JStr ''in''),
                       (''values'', JList [JStr ''A'', JStr ''C''])] = JStr ''in''
   \<and> filter_value [(''column'', JStr ''Status''), (''condition'', JStr ''in''),
                    (''values'', JList [JStr ''A'', JStr ''C''])] = JList [JStr ''A'', JStr ''C'']
   \<and> apply_filter demo_lib demo_frame
        (JObj [(''column'', JStr ''Status''), (''condition'', JStr ''in''),
               (''values'', JList [JStr ''A'', JStr ''C''])])
       = Inr (demo_frame\<lparr>rows := [[CInt 1, CDate 290, CInt 50, CStr ''A''],
                                    [CInt 3, CDate 289, CInt 0, CStr ''A''],
                                    [CInt 4, CDate 288, CInt 70, CStr ''C'']]\<rparr>)"
proof -
  let ?f = "[(''column'', JStr ''Data_Movimento_mov''), (''operator'', JStr ''between''),
             (''value'', JList [JNum 288, JNum 289])]"
  let ?g = "[(''column'', JStr ''Status''), (''condition'', JStr ''in''),
             (''values'', JList [JStr ''A'', JStr ''C''])]"
  have f1: "map_of ?f ''column'' = Some (JStr ''Data_Movimento_mov'')" by simp
  have f2: "coerce_date_column demo_lib demo_frame ''Data_Movimento_mov'' = Inr demo_frame"
    by code_simp
  have f3: "''Data_Movimento_mov'' \<in> set (columns demo_frame)" by code_simp
  have f4: "filter_operator ?f = JStr ''between''" by code_simp
  have f5: "filter_value ?f = JList [JNum 288, JNum 289]" by code_simp
  have f6: "to_datetime demo_lib (JNum 288) = Inr (Some 288)" by code_simp
  have f7: "to_datetime demo_lib (JNum 289) = Inr (Some 289)" by code_simp
  have f8: "is_datetime_column demo_frame ''Data_Movimento_mov''" by code_simp
  have f9: "demo_frame\<lparr>rows := filter (\<lambda>r. case cell_at (columns demo_frame) r ''Data_Movimento_mov'' of
                                              CDate d \<Rightarrow> 288 \<le> d \<and> d \<le> 289
                                            | _ \<Rightarrow> False) (rows demo_frame)\<rparr>
       = demo_frame\<lparr>rows := [[CInt 2, CDate 288, CInt 20, CStr ''B''],
                             [CInt 3, CDate 289, CInt 0, CStr ''A''],
                             [CInt 4, CDate 288, CInt 70, CStr ''C'']]\<rparr>"
    by code_simp
  have g1: "map_of ?g ''column'' = Some (JStr ''Status'')" by simp
  have g2: "coerce_date_column demo_lib demo_frame ''Status'' = Inr demo_frame" by code_simp
  have g3: "''Status'' \<in> set (columns demo_frame)" by code_simp
  have g4: "filter_operator ?g = JStr ''in''" by code_simp
  have g5: "filter_value ?g = JList [JStr ''A'', JStr ''C'']" by code_simp
  have g9: "demo_frame\<lparr>rows := filter (\<lambda>r. \<exists>v \<in> set [JStr ''A'', JStr ''C''].
                                   elem_eq demo_lib (cell_at (columns demo_frame) r ''Status'') v)
                                 (rows demo_frame)\<rparr>
       = demo_frame\<lparr>rows := [[CInt 1, CDate 290, CInt 50, CStr ''A''],
                             [CInt 3, CDate 289, CInt 0, CStr ''A''],
                             [CInt 4, CDate 288, CInt 70, CStr ''C'']]\<rparr>"
    by code_simp
  from between_and_in_filters [OF f1 f2 f3, where a = "JNum 288" and b = "JNum 289"
      and lo = 288 and hi = 289]
    f4 f5 f6 f7 f8 f9
  have r1: "apply_filter demo_lib demo_frame (JObj ?f)
       = Inr (demo_frame\<lparr>rows := [[CInt 2, CDate 288, CInt 20, CStr ''B''],
                                    [CInt 3, CDate 289, CInt 0, CStr ''A''],
                                    [CInt 4, CDate 288, CInt 70, CStr ''C'']]\<rparr>)"
    by simp
  from between_and_in_filters [OF g1 g2 g3, where vs = "[JStr ''A'', JStr ''C'']"] g4 g5 g9
  have r2: "apply_filter demo_lib demo_frame (JObj ?g)
       = Inr (demo_frame\<lparr>rows := [[CInt 1, CDate 290, CInt 50, CStr ''A''],
                                    [CInt 3, CDate 289, CInt 0, CStr ''A''],
                                    [CInt 4, CDate 288, CInt 70, CStr ''C'']]\<rparr>)"
    by simp
  from f1 f2 f3 f4 f5 f6 f7 f8 r1 g1 g2 g3 g4 g5 r2 show ?thesis by simp
qed

subsection \<open>The month axis of a bar chart\<close>

lemma index_of_less: "c \<in> set xs \<Longrightarrow> index_of c xs < length xs"
  by (induction xs) auto

lemma nth_index_of: "c \<in> set xs \<Longrightarrow> xs ! index_of c xs = c"
  by (induction xs) auto

lemma index_of_append: "c \<in> set xs \<Longrightarrow> index_of c (xs @ ys) = index_of c xs"
  by (induction xs) auto

lemma index_of_absent: "c \<notin> set xs \<Longrightarrow> index_of c (xs @ [c]) = length xs"
  by (induction xs) auto

lemma length_fit: "length (fit n r) = n"
  by (simp add: fit_def)

lemma column_cells_set_column:
  assumes "length vs = length (rows df)"
  shows "column_cells (set_column df c vs) c = vs"
proof (cases "c \<in> set (columns df)")
  case True
  have "map (\<lambda>r. cell_at (columns df) r c)
          (map (\<lambda>(r, v). (fit (length (columns df)) r)[index_of c (columns df) := v]) (zip rs vs)) = vs"
    if "length vs = length rs" for rs :: "cell list list"
    using that
    by (induction rs vs rule: list_induct2')
       (simp_all add: cell_at_def length_fit index_of_less [OF True])
  with assms True show ?thesis
    by (simp add: column_cells_def set_column_def Let_def)
next
  case False
  have "map (\<lambda>r. cell_at (columns df @ [c]) r c)
          (map (\<lambda>(r, v). fit (length (columns df)) r @ [v]) (zip rs vs)) = vs"
    if "length vs = length rs" for rs :: "cell list list"
    using that
    by (induction rs vs rule: list_induct2')
       (simp_all add: cell_at_def length_fit index_of_absent [OF False] nth_append)
  with assms False show ?thesis
    by (simp add: column_cells_def set_column_def Let_def)
qed

lemma columns_set_column: "c \<in> set (columns (set_column df c vs))"
  by (simp add: set_column_def Let_def)

lemma add_ano_mes_text:
  assumes "add_ano_mes P df = Inr df1"
  shows "text_column df1 Ano_Mes"
proof -
  let ?vs = "map (month_text P) (column_cells df ''Data_Movimento_mov'')"
  have d: "df1 = set_column df Ano_Mes ?vs"
    using assms by (simp add: add_ano_mes_def split: if_splits)
  have "length ?vs = length (rows df)" by (simp add: column_cells_def)
  then have "column_cells df1 Ano_Mes = ?vs"
    unfolding d by (rule column_cells_set_column)
  moreover have "list_all is_text ?vs"
    by (simp add: list_all_iff month_text_def split: cell.splits)
  ultimately show ?thesis
    by (simp add: text_column_def d columns_set_column)
qed

lemma map_e_member:
  "map_e f xs = Inr ys \<Longrightarrow> y \<in> set ys \<Longrightarrow> \<exists>x \<in> set xs. f x = Inr y"
  by (induction xs arbitrary: ys) (auto split: sum.splits)

lemma is_text_string: "is_text c \<Longrightarrow> is_string_cell c"
  by (cases c) simp_all

lemma cell_at_key:
  assumes "c \<in> set ks"
  shows "cell_at (ks @ [a]) (key_of df ks r @ [v]) c = cell_at (columns df) r c"
proof -
  have i: "index_of c ks < length ks" using assms by (rule index_of_less)
  then have "index_of c ks < Suc (length ks)" by simp
  moreover have "(key_of df ks r @ [v]) ! index_of c ks = cell_at (columns df) r c"
    using i by (simp add: key_of_def nth_append nth_index_of [OF assms])
  ultimately show ?thesis
    by (simp add: cell_at_def [of "ks @ [a]"] index_of_append [OF assms] key_of_def)
qed

lemma groupby_agg_text:
  assumes "groupby_agg P df keys agg_col agg_func = Inr da"
    and "JStr c \<in> set keys" and "text_column df c"
  shows "text_column da c"
proof -
  let ?ks = "map label keys"
  let ?a = "label agg_col"
  let ?keyed = "filter (\<lambda>r. CNull \<notin> set (key_of df ?ks r)) (rows df)"
  let ?groups = "sort_key (map cell_key) (remdups (map (key_of df ?ks) ?keyed))"
  let ?F = "\<lambda>g. case agg P agg_func
                        (map (\<lambda>r. cell_at (columns df) r ?a)
                           (filter (\<lambda>r. key_of df ?ks r = g) ?keyed)) of
                    Inl e \<Rightarrow> Inl e
                  | Inr v \<Rightarrow> Inr (g @ [v])"
  from assms(1) obtain rs where m: "map_e ?F ?groups = Inr rs"
    and da: "da = \<lparr>columns = ?ks @ [?a], rows = rs\<rparr>"
    by (auto simp: groupby_agg_def Let_def split: if_splits sum.splits)
  have c: "c \<in> set ?ks"
    using assms(2) by (force simp: image_iff)
  have "is_text (cell_at (?ks @ [?a]) row c)" if "row \<in> set rs" for row
  proof -
    from map_e_member [OF m that] obtain g where g: "g \<in> set ?groups" and "?F g = Inr row"
      by blast
    then obtain v where row: "row = g @ [v]"
      by (auto split: sum.splits)
    from g obtain r where r: "r \<in> set (rows df)" and gr: "g = key_of df ?ks r"
      by auto
    have "is_text (cell_at (columns df) r c)"
      using assms(3) r by (simp add: text_column_def list_all_iff column_cells_def)
    then show ?thesis
      by (simp add: row gr cell_at_key [OF c])
  qed
  then show ?thesis
    using c by (simp add: text_column_def da column_cells_def list_all_iff)
qed

lemma sorted_text_keys:
  assumes "list_all is_text cs" and "sorted (map cell_key cs)"
  shows "sorted (map text_of cs)"
  using assms
proof (induction cs)
  case Nil
  then show ?case by simp
next
  case (Cons c cs)
  have "text_of c \<le> text_of x" if "x \<in> set cs" for x
  proof -
    from Cons.prems that have "cell_key c \<le> cell_key x" "is_text c" "is_text x"
      by (auto simp: list_all_iff)
    then show ?thesis
      by (cases c; cases x) (simp_all add: less_eq_prod_def)
  qed
  with Cons show ?case by auto
qed

lemma sort_values_text:
  assumes "text_column df c"
  shows "\<exists>ds. sort_values df (JStr c) = Inr ds \<and> text_column ds c \<and> sorted (texts ds c)
            \<and> columns ds = columns df \<and> set (rows ds) = set (rows df)
            \<and> length (rows ds) = length (rows df)"
proof -
  let ?k = "\<lambda>r. cell_key (cell_at (columns df) r c)"
  let ?ds = "df\<lparr>rows := sort_key ?k (rows df)\<rparr>"
  have t: "list_all is_text (column_cells df c)" and c: "c \<in> set (columns df)"
    using assms by (simp_all add: text_column_def)
  have "list_all is_string_cell (column_cells df c)"
    using t by (simp add: list_all_iff is_text_string)
  then have s: "sort_values df (JStr c) = Inr ?ds"
    using c by (simp add: sort_values_def comparable_def)
  have t2: "text_column ?ds c"
    using assms by (simp add: text_column_def column_cells_def list_all_iff)
  have "sorted (map ?k (sort_key ?k (rows df)))" by (rule sorted_sort_key)
  then have "sorted (map cell_key (column_cells ?ds c))"
    by (simp add: column_cells_def comp_def)
  with t2 have "sorted (texts ?ds c)"
    unfolding texts_def by (intro sorted_text_keys) (simp_all add: text_column_def)
  with s t2 show ?thesis by simp
qed

text \<open>Texts of months are in the order of the months they name.\<close>

lemma of_char_digit: "(of_char (digit n) :: nat) = 48 + n mod 10"
  by (simp add: digit_def)

lemma digit_le: "digit a \<le> digit b \<longleftrightarrow> a mod 10 \<le> b mod 10"
  by (simp add: less_eq_char_def of_char_digit)

lemma digit_less: "digit a < digit b \<longleftrightarrow> a mod 10 < b mod 10"
  by (simp add: less_char_def of_char_digit)

lemma digit_eq: "digit a = digit b \<longleftrightarrow> a mod 10 = b mod 10"
proof
  assume "digit a = digit b"
  then have "(of_char (digit a) :: nat) = of_char (digit b)" by simp
  then show "a mod 10 = b mod 10" by (simp add: of_char_digit)
next
  assume "a mod 10 = b mod 10"
  then show "digit a = digit b" by (simp add: digit_def)
qed

lemma append_le_same_length:
  "length xs = length ys \<Longrightarrow>
     (xs @ us \<le> ys @ vs \<longleftrightarrow> xs < ys \<or> (xs = ys \<and> us \<le> vs))"
  for xs ys us vs :: string
  by (induction xs ys rule: list_induct2) auto

lemma append_less_same_length:
  "length xs = length ys \<Longrightarrow>
     (xs @ us < ys @ vs \<longleftrightarrow> xs < ys \<or> (xs = ys \<and> us < vs))"
  for xs ys us vs :: string
  by (induction xs ys rule: list_induct2) auto

lemma length_decimal: "length (decimal k n) = k"
  by (induction k arbitrary: n) simp_all

lemma less_by_digits:
  "n < m \<longleftrightarrow> n div 10 < m div 10 \<or> (n div 10 = m div 10 \<and> n mod 10 < m mod 10)"
  for n m :: nat
proof -
  have "n = 10 * (n div 10) + n mod 10" "m = 10 * (m div 10) + m mod 10" by simp_all
  moreover have "n mod 10 < 10" "m mod 10 < 10" by simp_all
  ultimately show ?thesis by linarith
qed

lemma eq_by_digits:
  "n = m \<longleftrightarrow> n div 10 = m div 10 \<and> n mod 10 = m mod 10"
  for n m :: nat
  by (metis div_mult_mod_eq)

lemma decimal_order:
  "n < 10 ^ k \<Longrightarrow> m < 10 ^ k \<Longrightarrow>
     (decimal k n < decimal k m \<longleftrightarrow> n < m) \<and> (decimal k n = decimal k m \<longleftrightarrow> n = m)"
proof (induction k arbitrary: n m)
  case 0
  then show ?case by simp
next
  case (Suc k)
  have d: "n div 10 < 10 ^ k" "m div 10 < 10 ^ k"
    using Suc.prems by simp_all
  note ih = Suc.IH [OF d]
  have l: "length (decimal k (n div 10)) = length (decimal k (m div 10))"
    by (simp add: length_decimal)
  have "decimal (Suc k) n < decimal (Suc k) m
      \<longleftrightarrow> n div 10 < m div 10 \<or> (n div 10 = m div 10 \<and> n mod 10 < m mod 10)"
    using ih by (simp add: append_less_same_length [OF l] digit_less)
  moreover have "decimal (Suc k) n = decimal (Suc k) m
      \<longleftrightarrow> n div 10 = m div 10 \<and> n mod 10 = m mod 10"
    using ih by (simp add: digit_eq)
  moreover have "n < m \<longleftrightarrow> n div 10 < m div 10 \<or> (n div 10 = m div 10 \<and> n mod 10 < m mod 10)"
    by (rule less_by_digits)
  moreover have "n = m \<longleftrightarrow> n div 10 = m div 10 \<and> n mod 10 = m mod 10"
    by (rule eq_by_digits)
  ultimately show ?case by blast
qed

lemma period_text_order:
  assumes "fst a < 10000" "fst b < 10000" "snd a < 100" "snd b < 100"
  shows "period_text a \<le> period_text b \<longleftrightarrow> fst a < fst b \<or> (fst a = fst b \<and> snd a \<le> snd b)"
proof -
  have y: "(decimal 4 (fst a) < decimal 4 (fst b) \<longleftrightarrow> fst a < fst b)
         \<and> (decimal 4 (fst a) = decimal 4 (fst b) \<longleftrightarrow> fst a = fst b)"
    by (rule decimal_order) (use assms in simp_all)
  have m: "(decimal 2 (snd a) < decimal 2 (snd b) \<longleftrightarrow> snd a < snd b)
         \<and> (decimal 2 (snd a) = decimal 2 (snd b) \<longleftrightarrow> snd a = snd b)"
    by (rule decimal_order) (use assms in simp_all)
  have l: "length (decimal 4 (fst a)) = length (decimal 4 (fst b))"
    by (simp only: length_decimal)
  have "period_text a \<le> period_text b
      \<longleftrightarrow> decimal 4 (fst a) < decimal 4 (fst b)
          \<or> (decimal 4 (fst a) = decimal 4 (fst b) \<and> decimal 2 (snd a) \<le> decimal 2 (snd b))"
    unfolding period_text_def append_le_same_length [OF l] by simp
  with y m show ?thesis by (auto simp: le_less)
qed

lemma sorted_months_chronological:
  assumes "sorted ts" and "i \<le> j" and "j < length ts"
    and "ts ! i = period_text a" and "ts ! j = period_text b"
    and "fst a < 10000" "fst b < 10000" "snd a < 100" "snd b < 100"
  shows "fst a < fst b \<or> (fst a = fst b \<and> snd a \<le> snd b)"
proof -
  from assms(1-3) have "ts ! i \<le> ts ! j" by (rule sorted_nth_mono)
  with assms(4,5) have "period_text a \<le> period_text b" by simp
  with period_text_order [OF assms(6-9)] show ?thesis by simp
qed

lemma grouping_columns_list:
  assumes "grouping_columns (JList gs) color_col = Inr g"
  shows "\<exists>gs1. g = JList gs1 \<and> set gs \<subseteq> set gs1 \<and> (truthy color_col \<longrightarrow> color_col \<in> set gs1)"
proof (cases "truthy color_col")
  case False
  with assms show ?thesis by (auto simp: grouping_columns_def)
next
  case True
  show ?thesis
  proof (cases "color_col \<in> set gs")
    case True
    with assms \<open>truthy color_col\<close> show ?thesis
      by (auto simp: grouping_columns_def py_in_def)
  next
    case False
    with assms \<open>truthy color_col\<close> have "g = JList (gs @ [color_col])"
      by (auto simp: grouping_columns_def py_in_def)
    then show ?thesis by auto
  qed
qed

lemma aggregate_InrD:
  assumes "aggregate P t color_col df = Inr (df_agg, agg_col)"
  shows "\<exists>ag. aggregate_with P t color_col df ag = Inr df_agg"
proof (cases "resolve_aggregation (dict_get_default t ''aggregation'' (JObj []))")
  case (Inl e)
  with assms show ?thesis by (simp add: aggregate_def)
next
  case (Inr ag)
  show ?thesis
  proof (cases "aggregate_with P t color_col df ag")
    case (Inl e)
    with assms Inr show ?thesis by (simp add: aggregate_def)
  next
    case (Inr da)
    with assms \<open>resolve_aggregation (dict_get_default t ''aggregation'' (JObj [])) = Inr ag\<close>
    have "da = df_agg" by (simp add: aggregate_def)
    with Inr show ?thesis by blast
  qed
qed

lemma aggregate_month:
  assumes "dict_get_default t ''group_by'' (JList []) = JList gs"
    and "JStr Ano_Mes \<in> set gs \<or> color_col = JStr Ano_Mes"
    and "aggregate P t color_col df = Inr (df_agg, agg_col)"
  shows "text_column df_agg Ano_Mes"
proof -
  from aggregate_InrD [OF assms(3)]
  obtain ag where ag: "aggregate_with P t color_col df ag = Inr df_agg" by blast
  obtain g where g: "grouping_columns (JList gs) color_col = Inr g"
  proof (cases "grouping_columns (JList gs) color_col")
    case (Inl e)
    with ag show ?thesis by (simp add: aggregate_with_def assms(1))
  next
    case (Inr g)
    with that show ?thesis .
  qed
  from grouping_columns_list [OF g]
  obtain gs1 where gs1: "g = JList gs1" and sub: "set gs \<subseteq> set gs1"
    and col: "truthy color_col \<longrightarrow> color_col \<in> set gs1"
    by blast
  have "truthy (JStr Ano_Mes)" by (simp add: Ano_Mes_def)
  with assms(2) sub col have mem: "JStr Ano_Mes \<in> set gs1" by auto
  then have m: "py_in (JStr Ano_Mes) g = Inr True"
    by (simp add: py_in_def gs1)
  have eq: "aggregate_with P t color_col df ag
      = (case add_ano_mes P df of
           Inl e \<Rightarrow> Inl e
         | Inr df1 \<Rightarrow>
             (if truthy g \<and> truthy (fst ag) \<and> truthy (snd ag)
              then (case py_list_set g of
                      Inl e \<Rightarrow> Inl e
                    | Inr keys \<Rightarrow> groupby_agg P df1 keys (fst ag) (snd ag))
              else Inr df1))"
    by (simp add: aggregate_with_def assms(1) g m)
  obtain df1 where df1: "add_ano_mes P df = Inr df1"
  proof (cases "add_ano_mes P df")
    case (Inl e)
    with ag eq show ?thesis by simp
  next
    case (Inr df1)
    with that show ?thesis .
  qed
  have t1: "text_column df1 Ano_Mes" using df1 by (rule add_ano_mes_text)
  show ?thesis
  proof (cases "truthy g \<and> truthy (fst ag) \<and> truthy (snd ag)")
    case True
    with ag eq df1 have r2: "(case py_list_set g of
                        Inl e \<Rightarrow> Inl e
                      | Inr keys \<Rightarrow> groupby_agg P df1 keys (fst ag) (snd ag)) = Inr df_agg"
      by simp
    obtain keys where k: "py_list_set g = Inr keys"
    proof (cases "py_list_set g")
      case (Inl e)
      with r2 show ?thesis by simp
    next
      case (Inr keys)
      with that show ?thesis .
    qed
    with r2 have gb: "groupby_agg P df1 keys (fst ag) (snd ag) = Inr df_agg" by simp
    from k have "keys = first_occurrences gs1"
      by (simp add: py_list_set_def py_iter_def gs1 split: if_splits)
    then have "JStr Ano_Mes \<in> set keys"
      using mem by (simp add: set_first_occurrences)
    from gb this t1 show ?thesis by (rule groupby_agg_text)
  next
    case False
    with ag eq df1 have "df_agg = df1" by simp
    with t1 show ?thesis by simp
  qed
qed


lemma chart_call_bar_month:
  assumes "dict_get p ''chart_type'' = JStr ''bar''"
    and "text_column df_agg Ano_Mes"
    and "chart_call p df_agg agg_col = Inr (Some call)"
  shows "kind call = Bar \<and> x_arg call = JStr Ano_Mes \<and> y_arg call = agg_col
       \<and> text_column (data_frame call) Ano_Mes \<and> sorted (texts (data_frame call) Ano_Mes)
       \<and> columns (data_frame call) = columns df_agg
       \<and> set (rows (data_frame call)) = set (rows df_agg)
       \<and> length (rows (data_frame call)) = length (rows df_agg)"
proof -
  from sort_values_text [OF assms(2)] obtain ds where
    ds: "sort_values df_agg (JStr Ano_Mes) = Inr ds" "text_column ds Ano_Mes"
      "sorted (texts ds Ano_Mes)" "columns ds = columns df_agg" "set (rows ds) = set (rows df_agg)"
      "length (rows ds) = length (rows df_agg)"
    by blast
  have "Ano_Mes \<in> set (columns df_agg)" using assms(2) by (simp add: text_column_def)
  then have "chart_call p df_agg agg_col
      = Inr (Some \<lparr>kind = Bar, data_frame = ds, x_arg = JStr Ano_Mes, y_arg = agg_col,
                   color_arg = dict_get p ''color'', title_arg = dict_get p ''title''\<rparr>)"
    using assms(1) ds(1) by (simp add: chart_call_def Let_def)
  with assms(3) have "call = \<lparr>kind = Bar, data_frame = ds, x_arg = JStr Ano_Mes, y_arg = agg_col,
                   color_arg = dict_get p ''color'', title_arg = dict_get p ''title''\<rparr>"
    by simp
  with ds show ?thesis by simp
qed

lemma plot_plan_SomeD:
  assumes "plot_plan P (JObj p) df = Inr (Some call)"
    and "dict_get p ''data_transformation'' = JObj t"
  shows "\<exists>d df_agg agg_col.
           aggregate P t (dict_get p ''color'') d = Inr (df_agg, agg_col)
         \<and> chart_call p df_agg agg_col = Inr (Some call)"
proof -
  let ?it = "py_iter (dict_get_default t ''filters'' (JList []))"
  let ?after = "\<lambda>d. if df_empty d then Inr None
                     else (case aggregate P t (dict_get p ''color'') d of
                             Inl e \<Rightarrow> Inl e
                           | Inr (df_agg, agg_col) \<Rightarrow>
                               if df_empty df_agg then Inr None
                               else chart_call p df_agg agg_col)"
  have e1: "plot_plan P (JObj p) df
      = (if \<not> truthy (JObj t) then Inr None
         else case ?it of
                Inl e \<Rightarrow> Inl e
              | Inr filters \<Rightarrow>
                  (case apply_filters P df filters of Inl e \<Rightarrow> Inl e | Inr d \<Rightarrow> ?after d))"
    by (simp add: plot_plan_def Let_def assms(2))
  have tr: "truthy (JObj t)"
    using assms(1) e1 by (cases "truthy (JObj t)") simp_all
  obtain fs where fs: "?it = Inr fs"
  proof (cases ?it)
    case (Inl e)
    with assms(1) e1 tr show ?thesis by simp
  next
    case (Inr fs)
    with that show ?thesis .
  qed
  obtain d where d: "apply_filters P df fs = Inr d"
  proof (cases "apply_filters P df fs")
    case (Inl e)
    with assms(1) e1 tr fs show ?thesis by simp
  next
    case (Inr d)
    with that show ?thesis .
  qed
  have s3: "?after d = Inr (Some call)"
    using assms(1) e1 tr fs d by simp
  then have ne: "\<not> df_empty d" by (cases "df_empty d") simp_all
  obtain x where x: "aggregate P t (dict_get p ''color'') d = Inr x"
  proof (cases "aggregate P t (dict_get p ''color'') d")
    case (Inl e)
    with s3 ne show ?thesis by simp
  next
    case (Inr x)
    with that show ?thesis .
  qed
  obtain df_agg agg_col where xp: "x = (df_agg, agg_col)" by (cases x)
  have "chart_call p df_agg agg_col = Inr (Some call)"
    using s3 ne x xp by (cases "df_empty df_agg") simp_all
  with x xp show ?thesis by blast
qed

text \<open>
  Claim C2. When a bar-chart plan that groups by the month key (listed in \<^verbatim>\<open>group_by\<close>, or
  given as the colour column) gives a chart, the call of \<^verbatim>\<open>px.bar\<close> has the month column
  as its x-axis, whatever the \<^verbatim>\<open>x_axis\<close> field of the plan says, and the rows of the frame
  handed to it are in ascending order of the month text, which is a string in every row. So
  of two rows that hold the texts of two months, the earlier row holds the earlier month.
\<close>

theorem bar_chart_month_axis:
  assumes "gerar_grafico_plotly P (JObj p) df = Some spec"
    and "dict_get p ''chart_type'' = JStr ''bar''"
    and "dict_get p ''data_transformation'' = JObj t"
    and "dict_get_default t ''group_by'' (JList []) = JList gs"
    and "JStr Ano_Mes \<in> set gs \<or> dict_get p ''color'' = JStr Ano_Mes"
  shows "\<exists>call. plot_plan P (JObj p) df = Inr (Some call) \<and> render P call = Inr spec
            \<and> kind call = Bar \<and> x_arg call = JStr Ano_Mes
            \<and> text_column (data_frame call) Ano_Mes
            \<and> sorted (texts (data_frame call) Ano_Mes)
            \<and> (\<forall>i j a b. i \<le> j \<and> j < length (texts (data_frame call) Ano_Mes)
                  \<and> texts (data_frame call) Ano_Mes ! i = period_text a
                  \<and> texts (data_frame call) Ano_Mes ! j = period_text b
                  \<and> fst a < 10000 \<and> fst b < 10000 \<and> snd a < 100 \<and> snd b < 100
                \<longrightarrow> fst a < fst b \<or> (fst a = fst b \<and> snd a \<le> snd b))"
proof -
  obtain call where pc: "plot_plan P (JObj p) df = Inr (Some call)"
    and r: "render P call = Inr spec"
  proof (cases "plot_plan P (JObj p) df")
    case (Inl e)
    with assms(1) show ?thesis by (simp add: gerar_grafico_plotly_def)
  next
    case (Inr oc)
    show ?thesis
    proof (cases oc)
      case None
      with Inr assms(1) show ?thesis by (simp add: gerar_grafico_plotly_def)
    next
      case (Some call)
      show ?thesis
      proof (cases "render P call")
        case (Inl e)
        with Inr Some assms(1) show ?thesis by (simp add: gerar_grafico_plotly_def)
      next
        case (Inr sp)
        with \<open>plot_plan P (JObj p) df = Inr oc\<close> Some assms(1) that show ?thesis
          by (simp add: gerar_grafico_plotly_def)
      qed
    qed
  qed
  from plot_plan_SomeD [OF pc assms(3)] obtain d df_agg agg_col where
    a: "aggregate P t (dict_get p ''color'') d = Inr (df_agg, agg_col)"
    and c: "chart_call p df_agg agg_col = Inr (Some call)"
    by blast
  have "text_column df_agg Ano_Mes"
    using assms(4,5) a by (rule aggregate_month)
  from chart_call_bar_month [OF assms(2) this c]
  have k: "kind call = Bar" "x_arg call = JStr Ano_Mes" "text_column (data_frame call) Ano_Mes"
    and s: "sorted (texts (data_frame call) Ano_Mes)"
    by simp_all
  have "fst a < fst b \<or> (fst a = fst b \<and> snd a \<le> snd b)"
    if "i \<le> j \<and> j < length (texts (data_frame call) Ano_Mes)
                  \<and> texts (data_frame call) Ano_Mes ! i = period_text a
                  \<and> texts (data_frame call) Ano_Mes ! j = period_text b
                  \<and> fst a < 10000 \<and> fst b < 10000 \<and> snd a < 100 \<and> snd b < 100"
    for i j a b
    using that by (intro sorted_months_chronological [OF s, of i j a b]) simp_all
  with pc r k s show ?thesis by blast
qed

theorem bar_chart_month_axis_witness:
  "gerar_grafico_plotly demo_lib (demo_plan ''bar'' count_clients) demo_frame
     = Some (JObj [(''x'', JStr Ano_Mes), (''y'', JStr ''ID_Cliente''),
                   (''rows'', JList [JList [JStr ''2024-01'', JNum 2],
                                     JList [JStr ''2024-02'', JNum 1],
                                     JList [JStr ''2024-03'', JNum 1]])])
   \<and> dict_get ((''data_transformation'', JObj ((''aggregation'', count_clients) # demo_transformation))
                # demo_axes ''bar'') ''chart_type'' = JStr ''bar''
   \<and> dict_get ((''data_transformation'', JObj ((''aggregation'', count_clients) # demo_transformation))
                # demo_axes ''bar'') ''x_axis'' = JStr ''Status''
   \<and> dict_get ((''data_transformation'', JObj ((''aggregation'', count_clients) # demo_transformation))
                # demo_axes ''bar'') ''data_transformation''
       = JObj ((''aggregation'', count_clients) # demo_transformation)
   \<and> dict_get_default ((''aggregation'', count_clients) # demo_transformation) ''group_by'' (JList [])
       = JList [JStr Ano_Mes]
   \<and> JStr Ano_Mes \<in> set [JStr Ano_Mes]
   \<and> (\<exists>call. plot_plan demo_lib (demo_plan ''bar'' count_clients) demo_frame = Inr (Some call)
          \<and> x_arg call = JStr Ano_Mes \<and> sorted (texts (data_frame call) Ano_Mes))
   \<and> texts (data_frame (the (projr (plot_plan demo_lib (demo_plan ''bar'' count_clients) demo_frame))))
        Ano_Mes = [''2024-01'', ''2024-02'', ''2024-03'']"
proof -
  let ?t = "(''aggregation'', count_clients) # demo_transformation"
  let ?p = "(''data_transformation'', JObj ?t) # demo_axes ''bar''"
  have g: "gerar_grafico_plotly demo_lib (JObj ?p) demo_frame
     = Some (JObj [(''x'', JStr Ano_Mes), (''y'', JStr ''ID_Cliente''),
                   (''rows'', JList [JList [JStr ''2024-01'', JNum 2],
                                     JList [JStr ''2024-02'', JNum 1],
                                     JList [JStr ''2024-03'', JNum 1]])])"
    by code_simp
  have h2: "dict_get ?p ''chart_type'' = JStr ''bar''" by code_simp
  have hx: "dict_get ?p ''x_axis'' = JStr ''Status''" by code_simp
  have h3: "dict_get ?p ''data_transformation'' = JObj ?t" by code_simp
  have h4: "dict_get_default ?t ''group_by'' (JList []) = JList [JStr Ano_Mes]" by code_simp
  have h5: "JStr Ano_Mes \<in> set [JStr Ano_Mes]" by simp
  then have h6: "JStr Ano_Mes \<in> set [JStr Ano_Mes] \<or> dict_get ?p ''color'' = JStr Ano_Mes" ..
  have t: "texts (data_frame (the (projr (plot_plan demo_lib (JObj ?p) demo_frame)))) Ano_Mes
             = [''2024-01'', ''2024-02'', ''2024-03'']"
    by code_simp
  from bar_chart_month_axis [OF g h2 h3 h4 h6] g h2 hx h3 h4 h5 t
  show ?thesis unfolding demo_plan_def by blast
qed

subsection \<open>The joins of \<^verbatim>\<open>get_data\<close>\<close>

lemma join_rows_nonempty: "join_rows P L R key l \<noteq> []"
  by (simp add: join_rows_def Let_def)

lemma length_join_rows: "1 \<le> length (join_rows P L R key l)"
  using join_rows_nonempty [of P L R key l] by (cases "join_rows P L R key l") simp_all

lemma length_join_rows_one:
  "(length (join_rows P L R key l) = 1) = (length (partners P L R key l) \<le> 1)"
  by (cases "partners P L R key l") (auto simp: join_rows_def Let_def)

text \<open>
  When the keys of a join are compared exactly, a dimension table whose key column has no
  repeated value gives every row at most one partner.
\<close>

lemma filter_distinct_key:
  "distinct (map f xs) \<Longrightarrow> length (filter (\<lambda>x. k = f x) xs) \<le> 1"
  by (induction xs) (auto simp: filter_empty_conv image_iff)

lemma exact_keys_single_partner:
  assumes "key_match P (column_cells L key) (column_cells R key) = Inr (\<lambda>a b. a = b)"
    and "unique_key R key"
  shows "single_partner P L R key"
proof -
  from assms(2) have d: "distinct (map (\<lambda>r. cell_at (columns R) r key) (rows R))"
    by (simp add: unique_key_def column_cells_def)
  show ?thesis
    unfolding single_partner_def partners_def
    using filter_distinct_key [OF d] by (simp add: assms(1))
qed

lemma length_concat_ge:
  "(\<And>x. 1 \<le> length (f x)) \<Longrightarrow> length xs \<le> length (concat (map f xs))"
proof (induction xs)
  case Nil
  then show ?case by simp
next
  case (Cons x xs)
  from Cons.prems [of x] Cons.IH [OF Cons.prems] show ?case by simp
qed

lemma length_concat_eq_iff:
  assumes "\<And>x. 1 \<le> length (f x)"
  shows "(length (concat (map f xs)) = length xs) = (\<forall>x \<in> set xs. length (f x) = 1)"
proof (induction xs)
  case Nil
  then show ?case by simp
next
  case (Cons x xs)
  from assms [of x] length_concat_ge [of f xs, OF assms] Cons show ?case
    by auto
qed

lemma merge_left_rows:
  "merge_left P L R key sfx = Inr T \<Longrightarrow> rows T = concat (map (join_rows P L R key) (rows L))"
  by (auto simp: merge_left_def Let_def split: if_splits sum.splits)

lemma merge_left_length:
  assumes "merge_left P L R key sfx = Inr T"
  shows "length (rows L) \<le> length (rows T)"
    and "(length (rows T) = length (rows L)) = single_partner P L R key"
proof -
  show "length (rows L) \<le> length (rows T)"
    unfolding merge_left_rows [OF assms] by (rule length_concat_ge) (rule length_join_rows)
  show "(length (rows T) = length (rows L)) = single_partner P L R key"
    unfolding merge_left_rows [OF assms] single_partner_def
      length_concat_eq_iff [of "join_rows P L R key", OF length_join_rows]
      length_join_rows_one ..
qed

lemma join_rows_prefix:
  "r \<in> set (join_rows P L R key l) \<Longrightarrow> prefix (fit (length (columns L)) l) r"
  by (auto simp: join_rows_def Let_def split: if_splits)

lemma merge_left_keeps:
  assumes "merge_left P L R key sfx = Inr T"
  shows "keeps_left_rows P L R key T"
  unfolding keeps_left_rows_def
proof (intro ballI conjI impI)
  fix l assume l: "l \<in> set (rows L)"
  obtain r where r: "r \<in> set (join_rows P L R key l)"
    using join_rows_nonempty [of P L R key l] by (cases "join_rows P L R key l") auto
  with l have "r \<in> set (rows T)"
    by (auto simp: merge_left_rows [OF assms])
  with join_rows_prefix [OF r]
  show "\<exists>r \<in> set (rows T). prefix (fit (length (columns L)) l) r" by blast
  assume "partners P L R key l = []"
  then have "fit (length (columns L)) l @ replicate (length (columns R) - 1) CNull
               \<in> set (join_rows P L R key l)"
    by (simp add: join_rows_def)
  with l show "fit (length (columns L)) l @ replicate (length (columns R) - 1) CNull \<in> set (rows T)"
    by (auto simp: merge_left_rows [OF assms])
qed

lemma length_filter_key:
  "distinct xs \<Longrightarrow> key \<in> set xs \<Longrightarrow> length (filter (\<lambda>c. c \<noteq> key) xs) = length xs - 1"
proof (induction xs)
  case Nil
  then show ?case by simp
next
  case (Cons a as)
  show ?case
  proof (cases "a = key")
    case True
    with Cons.prems have "filter (\<lambda>c. c \<noteq> key) as = as"
      by (auto simp: filter_id_conv)
    with True show ?thesis by simp
  next
    case False
    with Cons have "length (filter (\<lambda>c. c \<noteq> key) as) = length as - 1" and "as \<noteq> []"
      by auto
    with False show ?thesis by (cases as) simp_all
  qed
qed

lemma length_without_key:
  "key \<in> set (columns R) \<Longrightarrow> length (without_key R key r) = length (columns R) - 1"
  using index_of_less [of key "columns R"]
  by (simp add: without_key_def Let_def length_fit)

lemma length_right_part:
  assumes "key \<in> set (columns R)" and "distinct (columns R)"
  shows "length (right_part P L R key r) = length (columns R) - 1"
  by (simp add: right_part_def length_without_key [OF assms(1)]
      length_filter_key [OF assms(2,1)])

lemma length_join_row:
  assumes "key \<in> set (columns R)" and "distinct (columns R)"
    and "r \<in> set (join_rows P L R key l)"
  shows "length r = length (columns L) + (length (columns R) - 1)"
  using assms(3)
  by (auto simp: join_rows_def Let_def length_fit length_right_part [OF assms(1,2)]
      split: if_splits)

lemma merge_left_rectangular:
  assumes "merge_left P L R key sfx = Inr T" and "r \<in> set (rows T)"
  shows "length r = length (columns T)"
proof -
  have k: "key \<in> set (columns R)" and d: "distinct (columns R)"
    using assms(1) by (auto simp: merge_left_def Let_def split: if_splits sum.splits)
  have "length (columns T) = length (columns L) + length (filter (\<lambda>c. c \<noteq> key) (columns R))"
    using assms(1) by (auto simp: merge_left_def Let_def split: if_splits sum.splits)
  then have cols: "length (columns T) = length (columns L) + (length (columns R) - 1)"
    by (simp add: length_filter_key [OF d k])
  from assms(2) obtain l where "r \<in> set (join_rows P L R key l)"
    by (auto simp: merge_left_rows [OF assms(1)])
  from length_join_row [OF k d this] cols show ?thesis by simp
qed

lemma rows_set_column:
  "length vs = length (rows df) \<Longrightarrow> length (rows (set_column df c vs)) = length (rows df)"
  by (simp add: set_column_def Let_def)

lemma rows_coerce_column: "length (rows (coerce_column P df c)) = length (rows df)"
  unfolding coerce_column_def by (rule rows_set_column) (simp add: column_cells_def)

lemma rows_fold_coerce:
  "length (rows (fold (\<lambda>col d. if is_substr ''Data'' col then coerce_column P d col else d) cs df))
     = length (rows df)"
  by (induction cs arbitrary: df) (simp_all add: rows_coerce_column)

lemma rows_coerce_dates: "length (rows (coerce_dates P df)) = length (rows df)"
  unfolding coerce_dates_def by (rule rows_fold_coerce)

lemma prefix_fit_row:
  assumes "keeps_left_rows P L R key T" and "l \<in> set (rows L)"
  obtains r where "r \<in> set (rows T)" and "prefix (fit (length (columns L)) l) r"
  using assms unfolding keeps_left_rows_def by blast

lemma fit_same: "length r = n \<Longrightarrow> fit n r = r"
  by (simp add: fit_def)

lemma merge_left_extends:
  assumes "merge_left P L R key sfx = Inr T" and "merge_left P T R2 key2 sfx2 = Inr T2"
    and "t \<in> set (rows T)"
  obtains r where "r \<in> set (rows T2)" and "prefix t r"
proof -
  from merge_left_keeps [OF assms(2)] assms(3) obtain r where r: "r \<in> set (rows T2)"
    and "prefix (fit (length (columns T)) t) r"
    by (rule prefix_fit_row)
  moreover have "fit (length (columns T)) t = t"
    by (rule fit_same) (rule merge_left_rectangular [OF assms(1,3)])
  ultimately show ?thesis using that by simp
qed

lemma merge_chain_InrD:
  assumes "merge_chain P df_mov contas clientes df_class parceiros = Inr t4"
  obtains t1 t2 t3 where
    "merge_left P df_mov contas ''ID_Conta'' default_suffixes = Inr t1"
    "merge_left P t1 clientes ''ID_Cliente'' default_suffixes = Inr t2"
    "merge_left P t2 df_class ''ID_Conta'' (''_mov'', ''_class'') = Inr t3"
    "merge_left P t3 parceiros ''ID_Parceiro'' default_suffixes = Inr t4"
proof (cases "merge_left P df_mov contas ''ID_Conta'' default_suffixes")
  case (Inl e)
  with assms show ?thesis by (simp add: merge_chain_def)
next
  case t1: (Inr t1)
  show ?thesis
  proof (cases "merge_left P t1 clientes ''ID_Cliente'' default_suffixes")
    case (Inl e)
    with assms t1 show ?thesis by (simp add: merge_chain_def)
  next
    case t2: (Inr t2)
    show ?thesis
    proof (cases "merge_left P t2 df_class ''ID_Conta'' (''_mov'', ''_class'')")
      case (Inl e)
      with assms t1 t2 show ?thesis by (simp add: merge_chain_def)
    next
      case t3: (Inr t3)
      with assms t1 t2 have "merge_left P t3 parceiros ''ID_Parceiro'' default_suffixes = Inr t4"
        by (simp add: merge_chain_def)
      with t1 t2 t3 that show ?thesis by blast
    qed
  qed
qed

lemma merged_frame_InrD:
  assumes "merged_frame P local_dataframes = Inr t4"
  obtains df_mov contas clientes df_class0 parceiros where
    "frame_of local_dataframes ''movimentos'' = Inr df_mov"
    "frame_of local_dataframes ''contas'' = Inr contas"
    "frame_of local_dataframes ''clientes'' = Inr clientes"
    "frame_of local_dataframes ''classificacao'' = Inr df_class0"
    "frame_of local_dataframes ''parceiros'' = Inr parceiros"
    "merge_chain P df_mov contas clientes
       (rename_column df_class0 ''Data_Ultimo_Movimento'' ''Data_Movimento'') parceiros = Inr t4"
proof (cases "frame_of local_dataframes ''movimentos''")
  case (Inl e)
  with assms show ?thesis by (simp add: merged_frame_def)
next
  case a: (Inr df_mov)
  show ?thesis
  proof (cases "frame_of local_dataframes ''classificacao''")
    case (Inl e)
    with assms a show ?thesis by (simp add: merged_frame_def)
  next
    case b: (Inr df_class0)
    show ?thesis
    proof (cases "frame_of local_dataframes ''contas''")
      case (Inl e)
      with assms a b show ?thesis by (simp add: merged_frame_def)
    next
      case c: (Inr contas)
      show ?thesis
      proof (cases "frame_of local_dataframes ''clientes''")
        case (Inl e)
        with assms a b c show ?thesis by (simp add: merged_frame_def)
      next
        case d: (Inr clientes)
        show ?thesis
        proof (cases "frame_of local_dataframes ''parceiros''")
          case (Inl e)
          with assms a b c d show ?thesis by (simp add: merged_frame_def)
        next
          case e: (Inr parceiros)
          with assms a b c d have "merge_chain P df_mov contas clientes
              (rename_column df_class0 ''Data_Ultimo_Movimento'' ''Data_Movimento'') parceiros = Inr t4"
            by (simp add: merged_frame_def)
          with a b c d e that show ?thesis by blast
        qed
      qed
    qed
  qed
qed

lemma get_data_SomeD:
  assumes "get_data P drive_service = Some final_df"
  obtains items local_dataframes t4 where
    "drive_service = Some (Inr items)" "load_files [] items = Inr local_dataframes"
    "merged_frame P local_dataframes = Inr t4" "final_df = coerce_dates P t4"
  using assms
  by (auto simp: get_data_def split: option.splits sum.splits)

text \<open>A join whose key columns cannot be merged fails with the error of the comparison.\<close>

lemma merge_left_key_error:
  assumes "key \<in> set (columns L)" and "key \<in> set (columns R)"
    and "key_match P (column_cells L key) (column_cells R key) = Inl e"
  shows "merge_left P L R key sfx = Inl e"
  using assms by (simp add: merge_left_def)

text \<open>
  Claim C1, as stated, asks for exactly as many rows as the movements table has. A left join
  pairs a row with every partner it has, so a key that occurs twice in a dimension table makes
  two rows out of one movement: with account 10 listed twice, two movements give three rows.
\<close>

theorem merged_row_count_counterexample:
  "frame_of (projr (load_files [] (projr (the (demo_drive demo_contas))))) ''movimentos''
     = Inr demo_movimentos
   \<and> length (rows demo_movimentos) = 2
   \<and> get_data demo_lib (demo_drive demo_contas)
     = Some \<lparr>columns = [''ID_Movimento'', ''ID_Conta'', ''Data_Movimento_mov'', ''ID_Cliente'',
                        ''ID_Parceiro'', ''Data_Movimento_class'', ''Parceiro''],
             rows = [[CInt 1, CInt 10, CDate 288, CInt 7, CInt 3, CDate 290, CStr ''P''],
                     [CInt 1, CInt 10, CDate 288, CInt 8, CInt 3, CDate 290, CStr ''P''],
                     [CInt 2, CInt 99, CNull, CNull, CNull, CNull, CNull]]\<rparr>
   \<and> length (rows (the (get_data demo_lib (demo_drive demo_contas))))
       \<noteq> length (rows demo_movimentos)"
  by code_simp

text \<open>
  Claim C1, amended. When \<^verbatim>\<open>get_data\<close> returns a table, it is the date coercion of the
  result of the four left joins, in the order accounts, clients, classification, partners.
  Every join keeps every row of its left frame: the row is the beginning of a row of the
  result, and when it has no partner in the dimension table it is there once with nulls in
  the dimension's columns. So every movement row is the beginning of a row of the merged
  table, and the table has at least as many rows as the movements table. It has exactly as
  many if and only if, in each of the four joins, no row of the left frame has more than one
  partner in the dimension table; the partners of a row are those that pandas' own
  comparison of the keys of that join gives it, and the left frame of a later join is the
  result of the join before it.
\<close>

theorem left_joins_keep_rows:
  assumes "get_data P drive_service = Some final_df"
  shows "\<exists>items local_dataframes df_mov contas clientes df_class0 df_class parceiros t1 t2 t3 t4.
           drive_service = Some (Inr items) \<and> load_files [] items = Inr local_dataframes
         \<and> frame_of local_dataframes ''movimentos'' = Inr df_mov
         \<and> frame_of local_dataframes ''contas'' = Inr contas
         \<and> frame_of local_dataframes ''clientes'' = Inr clientes
         \<and> frame_of local_dataframes ''classificacao'' = Inr df_class0
         \<and> df_class = rename_column df_class0 ''Data_Ultimo_Movimento'' ''Data_Movimento''
         \<and> frame_of local_dataframes ''parceiros'' = Inr parceiros
         \<and> merge_left P df_mov contas ''ID_Conta'' default_suffixes = Inr t1
         \<and> merge_left P t1 clientes ''ID_Cliente'' default_suffixes = Inr t2
         \<and> merge_left P t2 df_class ''ID_Conta'' (''_mov'', ''_class'') = Inr t3
         \<and> merge_left P t3 parceiros ''ID_Parceiro'' default_suffixes = Inr t4
         \<and> final_df = coerce_dates P t4
         \<and> keeps_left_rows P df_mov contas ''ID_Conta'' t1
         \<and> keeps_left_rows P t1 clientes ''ID_Cliente'' t2
         \<and> keeps_left_rows P t2 df_class ''ID_Conta'' t3
         \<and> keeps_left_rows P t3 parceiros ''ID_Parceiro'' t4
         \<and> (\<forall>m \<in> set (rows df_mov). \<exists>r \<in> set (rows t4). prefix (fit (length (columns df_mov)) m) r)
         \<and> length (rows df_mov) \<le> length (rows final_df)
         \<and> (length (rows final_df) = length (rows df_mov))
             = (single_partner P df_mov contas ''ID_Conta''
                \<and> single_partner P t1 clientes ''ID_Cliente''
                \<and> single_partner P t2 df_class ''ID_Conta''
                \<and> single_partner P t3 parceiros ''ID_Parceiro'')"
proof -
  from assms obtain items local_dataframes t4 where
    g: "drive_service = Some (Inr items)" "load_files [] items = Inr local_dataframes"
      "merged_frame P local_dataframes = Inr t4" "final_df = coerce_dates P t4"
    by (rule get_data_SomeD)
  from g(3) obtain df_mov contas clientes df_class0 parceiros where
    f: "frame_of local_dataframes ''movimentos'' = Inr df_mov"
      "frame_of local_dataframes ''contas'' = Inr contas"
      "frame_of local_dataframes ''clientes'' = Inr clientes"
      "frame_of local_dataframes ''classificacao'' = Inr df_class0"
      "frame_of local_dataframes ''parceiros'' = Inr parceiros"
    and c: "merge_chain P df_mov contas clientes
       (rename_column df_class0 ''Data_Ultimo_Movimento'' ''Data_Movimento'') parceiros = Inr t4"
    by (rule merged_frame_InrD)
  define df_class where "df_class = rename_column df_class0 ''Data_Ultimo_Movimento'' ''Data_Movimento''"
  from c obtain t1 t2 t3 where
    m1: "merge_left P df_mov contas ''ID_Conta'' default_suffixes = Inr t1" and
    m2: "merge_left P t1 clientes ''ID_Cliente'' default_suffixes = Inr t2" and
    m3: "merge_left P t2 df_class ''ID_Conta'' (''_mov'', ''_class'') = Inr t3" and
    m4: "merge_left P t3 parceiros ''ID_Parceiro'' default_suffixes = Inr t4"
    unfolding df_class_def [symmetric] by (rule merge_chain_InrD)
  note k1 = merge_left_keeps [OF m1] and k2 = merge_left_keeps [OF m2]
    and k3 = merge_left_keeps [OF m3] and k4 = merge_left_keeps [OF m4]
  have trace: "\<forall>m \<in> set (rows df_mov). \<exists>r \<in> set (rows t4). prefix (fit (length (columns df_mov)) m) r"
  proof
    fix m assume "m \<in> set (rows df_mov)"
    with k1 obtain r1 where r1: "r1 \<in> set (rows t1)"
      and p1: "prefix (fit (length (columns df_mov)) m) r1"
      by (rule prefix_fit_row)
    from m1 m2 r1 obtain r2 where r2: "r2 \<in> set (rows t2)" and p2: "prefix r1 r2"
      by (rule merge_left_extends)
    from m2 m3 r2 obtain r3 where r3: "r3 \<in> set (rows t3)" and p3: "prefix r2 r3"
      by (rule merge_left_extends)
    from m3 m4 r3 obtain r4 where r4: "r4 \<in> set (rows t4)" and p4: "prefix r3 r4"
      by (rule merge_left_extends)
    from p1 p2 p3 p4 have "prefix (fit (length (columns df_mov)) m) r4"
      by (meson prefix_order.trans)
    with r4 show "\<exists>r \<in> set (rows t4). prefix (fit (length (columns df_mov)) m) r" by blast
  qed
  have len: "length (rows final_df) = length (rows t4)"
    by (simp add: g(4) rows_coerce_dates)
  note l1 = merge_left_length [OF m1] and l2 = merge_left_length [OF m2]
    and l3 = merge_left_length [OF m3] and l4 = merge_left_length [OF m4]
  have le: "length (rows df_mov) \<le> length (rows final_df)"
    using l1(1) l2(1) l3(1) l4(1) len by simp
  have "(length (rows t4) = length (rows df_mov))
          = (length (rows t1) = length (rows df_mov) \<and> length (rows t2) = length (rows t1)
             \<and> length (rows t3) = length (rows t2) \<and> length (rows t4) = length (rows t3))"
    using l1(1) l2(1) l3(1) l4(1) by auto
  then have eq: "(length (rows final_df) = length (rows df_mov))
             = (single_partner P df_mov contas ''ID_Conta''
                \<and> single_partner P t1 clientes ''ID_Cliente''
                \<and> single_partner P t2 df_class ''ID_Conta''
                \<and> single_partner P t3 parceiros ''ID_Parceiro'')"
    by (simp only: len l1(2) l2(2) l3(2) l4(2))
  from g(1,2,4) f df_class_def m1 m2 m3 m4 k1 k2 k3 k4 trace le eq
  show ?thesis by blast
qed

theorem left_joins_keep_rows_witness:
  "get_data demo_lib (demo_drive demo_contas_unique)
     = Some \<lparr>columns = [''ID_Movimento'', ''ID_Conta'', ''Data_Movimento_mov'', ''ID_Cliente'',
                        ''ID_Parceiro'', ''Data_Movimento_class'', ''Parceiro''],
             rows = [[CInt 1, CInt 10, CDate 288, CInt 7, CInt 3, CDate 290, CStr ''P''],
                     [CInt 2, CInt 99, CNull, CNull, CNull, CNull, CNull]]\<rparr>
   \<and> single_partner demo_lib demo_movimentos demo_contas_unique ''ID_Conta''
   \<and> single_partner demo_lib
        \<lparr>columns = [''ID_Movimento'', ''ID_Conta'', ''Data_Movimento'', ''ID_Cliente''],
         rows = [[CInt 1, CInt 10, CInt 288, CInt 7], [CInt 2, CInt 99, CStr ''?'', CNull]]\<rparr>
        demo_clientes ''ID_Cliente''
   \<and> single_partner demo_lib
        \<lparr>columns = [''ID_Movimento'', ''ID_Conta'', ''Data_Movimento'', ''ID_Cliente'',
                    ''ID_Parceiro''],
         rows = [[CInt 1, CInt 10, CInt 288, CInt 7, CInt 3],
                 [CInt 2, CInt 99, CStr ''?'', CNull, CNull]]\<rparr>
        (rename_column demo_classificacao ''Data_Ultimo_Movimento'' ''Data_Movimento'') ''ID_Conta''
   \<and> single_partner demo_lib
        \<lparr>columns = [''ID_Movimento'', ''ID_Conta'', ''Data_Movimento_mov'', ''ID_Cliente'',
                    ''ID_Parceiro'', ''Data_Movimento_class''],
         rows = [[CInt 1, CInt 10, CInt 288, CInt 7, CInt 3, CInt 290],
                 [CInt 2, CInt 99, CStr ''?'', CNull, CNull, CNull]]\<rparr>
        demo_parceiros ''ID_Parceiro''
   \<and> length (rows (the (get_data demo_lib (demo_drive demo_contas_unique))))
       = length (rows demo_movimentos)
   \<and> [CInt 2, CInt 99, CStr ''?''] \<in> set (rows demo_movimentos)
   \<and> partners demo_lib demo_movimentos demo_contas_unique ''ID_Conta''
        [CInt 2, CInt 99, CStr ''?''] = []
   \<and> [CInt 2, CInt 99, CStr ''?'', CNull]
       \<in> set (rows (projr (merge_left demo_lib demo_movimentos demo_contas_unique ''ID_Conta''
                               default_suffixes)))"
proof -
  let ?F = "\<lparr>columns = [''ID_Movimento'', ''ID_Conta'', ''Data_Movimento_mov'', ''ID_Cliente'',
                        ''ID_Parceiro'', ''Data_Movimento_class'', ''Parceiro''],
             rows = [[CInt 1, CInt 10, CDate 288, CInt 7, CInt 3, CDate 290, CStr ''P''],
                     [CInt 2, CInt 99, CNull, CNull, CNull, CNull, CNull]]\<rparr>"
  let ?T1 = "\<lparr>columns = [''ID_Movimento'', ''ID_Conta'', ''Data_Movimento'', ''ID_Cliente''],
         rows = [[CInt 1, CInt 10, CInt 288, CInt 7], [CInt 2, CInt 99, CStr ''?'', CNull]]\<rparr>"
  let ?T2 = "\<lparr>columns = [''ID_Movimento'', ''ID_Conta'', ''Data_Movimento'', ''ID_Cliente'',
                    ''ID_Parceiro''],
         rows = [[CInt 1, CInt 10, CInt 288, CInt 7, CInt 3],
                 [CInt 2, CInt 99, CStr ''?'', CNull, CNull]]\<rparr>"
  let ?T3 = "\<lparr>columns = [''ID_Movimento'', ''ID_Conta'', ''Data_Movimento_mov'', ''ID_Cliente'',
                    ''ID_Parceiro'', ''Data_Movimento_class''],
         rows = [[CInt 1, CInt 10, CInt 288, CInt 7, CInt 3, CInt 290],
                 [CInt 2, CInt 99, CStr ''?'', CNull, CNull, CNull]]\<rparr>"
  let ?C = "rename_column demo_classificacao ''Data_Ultimo_Movimento'' ''Data_Movimento''"
  let ?items = "[\<lparr>file_name = ''Movimentos_Contas.csv'', content = Inr demo_movimentos\<rparr>,
                \<lparr>file_name = ''contas.csv'', content = Inr demo_contas_unique\<rparr>,
                \<lparr>file_name = ''clientes.csv'', content = Inr demo_clientes\<rparr>,
                \<lparr>file_name = ''notes.csv'', content = Inl ValueError\<rparr>,
                \<lparr>file_name = ''classificacao_ultimo_movimento.csv'', content = Inr demo_classificacao\<rparr>,
                \<lparr>file_name = ''parceiros.csv'', content = Inr demo_parceiros\<rparr>]"
  let ?local = "[(''parceiros'', demo_parceiros), (''classificacao'', demo_classificacao),
                 (''clientes'', demo_clientes), (''contas'', demo_contas_unique),
                 (''movimentos'', demo_movimentos)]"
  have g: "get_data demo_lib (demo_drive demo_contas_unique) = Some ?F" by code_simp
  have l: "load_files [] ?items = Inr ?local"
    by code_simp
  have e1: "merge_left demo_lib demo_movimentos demo_contas_unique ''ID_Conta'' default_suffixes
      = Inr ?T1"
    by code_simp
  have e2: "merge_left demo_lib ?T1 demo_clientes ''ID_Cliente'' default_suffixes = Inr ?T2"
    by code_simp
  have e3: "merge_left demo_lib ?T2 ?C ''ID_Conta'' (''_mov'', ''_class'') = Inr ?T3"
    by code_simp
  have u: "single_partner demo_lib demo_movimentos demo_contas_unique ''ID_Conta''"
    "single_partner demo_lib ?T1 demo_clientes ''ID_Cliente''"
    "single_partner demo_lib ?T2 ?C ''ID_Conta''"
    "single_partner demo_lib ?T3 demo_parceiros ''ID_Parceiro''"
    by code_simp+
  have x: "[CInt 2, CInt 99, CStr ''?''] \<in> set (rows demo_movimentos)"
    "partners demo_lib demo_movimentos demo_contas_unique ''ID_Conta''
        [CInt 2, CInt 99, CStr ''?''] = []"
    by code_simp+
  from left_joins_keep_rows [OF g]
  obtain items local_dataframes df_mov contas clientes df_class0 df_class parceiros t1 t2 t3 t4
    where d: "demo_drive demo_contas_unique = Some (Inr items)"
      and lf: "load_files [] items = Inr local_dataframes"
      and f: "frame_of local_dataframes ''movimentos'' = Inr df_mov"
        "frame_of local_dataframes ''contas'' = Inr contas"
        "frame_of local_dataframes ''clientes'' = Inr clientes"
        "frame_of local_dataframes ''classificacao'' = Inr df_class0"
        "df_class = rename_column df_class0 ''Data_Ultimo_Movimento'' ''Data_Movimento''"
        "frame_of local_dataframes ''parceiros'' = Inr parceiros"
      and m: "merge_left demo_lib df_mov contas ''ID_Conta'' default_suffixes = Inr t1"
        "merge_left demo_lib t1 clientes ''ID_Cliente'' default_suffixes = Inr t2"
        "merge_left demo_lib t2 df_class ''ID_Conta'' (''_mov'', ''_class'') = Inr t3"
      and eq: "(length (rows ?F) = length (rows df_mov))
             = (single_partner demo_lib df_mov contas ''ID_Conta''
                \<and> single_partner demo_lib t1 clientes ''ID_Cliente''
                \<and> single_partner demo_lib t2 df_class ''ID_Conta''
                \<and> single_partner demo_lib t3 parceiros ''ID_Parceiro'')"
    by blast
  from d have "items = ?items" by (simp add: demo_drive_def)
  with lf l have "local_dataframes = ?local" by simp
  with f have fr: "df_mov = demo_movimentos" "contas = demo_contas_unique"
    "clientes = demo_clientes" "df_class = ?C" "parceiros = demo_parceiros"
    by (simp_all add: frame_of_def)
  from m(1) e1 fr have t1: "t1 = ?T1" by simp
  from m(2) e2 fr t1 have t2: "t2 = ?T2" by simp
  from m(3) e3 fr t2 have t3: "t3 = ?T3" by simp
  from eq u fr t1 t2 t3 have "length (rows ?F) = length (rows demo_movimentos)" by simp
  with g u x e1 show ?thesis by simp
qed

end
